theory Spec2Isabelle
  imports Main
begin

section \<open>Shared conventions\<close>

text \<open>
  Go functions that can panic return a value of \<open>'a go\<close>: \<open>Panics msg\<close> for a
  \<^verbatim>\<open>panic(...)\<close>, \<open>Returns v\<close> for a normal return. A Go \<open>error\<close> is a value
  of type \<open>error\<close>: the two kinds the code tests for with \<^verbatim>\<open>errors.Is\<close>
  (\<^verbatim>\<open>fs.ErrNotExist\<close>, \<^verbatim>\<open>syscall.ENOTDIR\<close>) and every other error with its
  message. A \<open>(T, error)\<close> result is a sum \<open>error + T\<close>, or a pair whose second
  component is \<open>None\<close> for \<^verbatim>\<open>nil\<close> where the code returns both.
\<close>

datatype 'a go = Panics string | Returns 'a

datatype error = ErrNotExist | ENOTDIR | Err string

text \<open>\<^verbatim>\<open>strconv.Itoa\<close> and the \<^verbatim>\<open>%d\<close>, \<^verbatim>\<open>%v\<close> verbs on integers: decimal digits.\<close>

definition digitChar :: "nat \<Rightarrow> char" where
  "digitChar n = char_of (48 + n)"

fun natToString :: "nat \<Rightarrow> string" where
  "natToString n =
     (if n < 10 then [digitChar n] else natToString (n div 10) @ [digitChar (n mod 10)])"

declare natToString.simps [simp del]

definition Itoa :: "int \<Rightarrow> string" where
  "Itoa i = (if i < 0 then CHR ''-'' # natToString (nat (- i)) else natToString (nat i))"

section \<open>cc/api\_level.go\<close>

text \<open>
  \<open>android.ArchType\<close> is a struct compared by value in the \<^verbatim>\<open>switch\<close> of
  \<open>MinApiForArch\<close>; the five architectures the switch names and the \<open>Common\<close>
  pseudo-architecture are constructors, every other value is \<open>OtherArch name\<close>.
\<close>

datatype ArchType = Arm | Arm64 | Riscv64 | X86 | X86_64 | Common | OtherArch string

text \<open>
  The module context as far as \<^verbatim>\<open>cc/api_level.go\<close> reads it. The type \<open>'lvl\<close> stands
  for \<open>android.ApiLevel\<close>, whose declaration is in the \<open>android\<close> package; its
  constants, its parser \<open>android.ApiLevelFromUser\<close> and its order \<open>LessThan\<close> are
  fields, since the functions below only call them.
\<close>

record 'lvl BaseModuleContext =
  MinSupportedSdkVersion :: 'lvl
  FirstLp64Version :: 'lvl
  FutureApiLevel :: 'lvl
  NoneApiLevel :: 'lvl
  ctx_ArchType :: ArchType
  ApiLevelFromUser :: "string \<Rightarrow> error + 'lvl"
  LessThan :: "'lvl \<Rightarrow> 'lvl \<Rightarrow> bool"

fun MinApiForArch :: "'lvl BaseModuleContext \<Rightarrow> ArchType \<Rightarrow> 'lvl go" where
  "MinApiForArch ctx Arm = Returns (MinSupportedSdkVersion ctx)"
| "MinApiForArch ctx X86 = Returns (MinSupportedSdkVersion ctx)"
| "MinApiForArch ctx Arm64 = Returns (FirstLp64Version ctx)"
| "MinApiForArch ctx X86_64 = Returns (FirstLp64Version ctx)"
| "MinApiForArch ctx Riscv64 = Returns (FutureApiLevel ctx)"
| "MinApiForArch ctx _ = Panics ''Unknown arch''"

definition nativeClampedApiLevel :: "'lvl BaseModuleContext \<Rightarrow> 'lvl \<Rightarrow> 'lvl go" where
  "nativeClampedApiLevel ctx apiLevel =
     (case MinApiForArch ctx (ctx_ArchType ctx) of
        Panics msg \<Rightarrow> Panics msg
      | Returns minLevel \<Rightarrow>
          if LessThan ctx apiLevel minLevel then Returns minLevel else Returns apiLevel)"

definition NativeApiLevelFromUser ::
    "'lvl BaseModuleContext \<Rightarrow> string \<Rightarrow> ('lvl \<times> error option) go" where
  "NativeApiLevelFromUser ctx raw =
     (if raw = ''minimum'' then
        (case MinApiForArch ctx (ctx_ArchType ctx) of
           Panics msg \<Rightarrow> Panics msg
         | Returns minLevel \<Rightarrow> Returns (minLevel, None))
      else
        (case ApiLevelFromUser ctx raw of
           Inl err \<Rightarrow> Returns (NoneApiLevel ctx, Some err)
         | Inr value \<Rightarrow>
             (case nativeClampedApiLevel ctx value of
                Panics msg \<Rightarrow> Panics msg
              | Returns v \<Rightarrow> Returns (v, None))))"

text \<open>An example context: API levels are integers ordered by \<open><\<close>.\<close>

definition exampleApiCtx :: "int BaseModuleContext" where
  "exampleApiCtx =
     \<lparr> MinSupportedSdkVersion = 21, FirstLp64Version = 21, FutureApiLevel = 10000,
       NoneApiLevel = - 1, ctx_ArchType = Arm64,
       ApiLevelFromUser = (\<lambda>s. if s = ''16'' then Inr 16 else if s = ''30'' then Inr 30
                                else Inl (Err ''not a valid API level'')),
       LessThan = (<) \<rparr>"

section \<open>ui/build: files, libraries and configuration\<close>

text \<open>
  The file system as the code of \<^verbatim>\<open>ui/build\<close> sees it: a map from paths to files
  (directories are entries too, as far as \<^verbatim>\<open>os.Stat\<close> is concerned), and, for every
  system call and path, the error with which that call fails there, if it does. A file
  carries its contents and its modification time in microseconds.
\<close>

record File =
  data :: string
  modTime :: int

datatype syscall = SysStat | SysOpen | SysRead | SysMkdirAll | SysCreate | SysWrite | SysClose

record FileSystem =
  files :: "string \<Rightarrow> File option"
  fault :: "syscall \<Rightarrow> string \<Rightarrow> error option"

text \<open>\<open>pathtools.GlobResult\<close> (Blueprint): one glob with its cached or fresh result.\<close>

record GlobResult =
  Pattern :: string
  Excludes :: "string list"
  Matches :: "string list"
  Deps :: "string list"

text \<open>Lines of the Kati environment script read by \<open>Environment.AppendFromKati\<close>.\<close>

datatype katiLine = KatiExport string string | KatiUnset string

text \<open>
  \<open>Environment\<close> is the list of the variables with their values, in order; the first
  entry of a key is the one \<open>Get\<close> finds.
\<close>

type_synonym Environment = "(string \<times> string) list"

text \<open>
  What the code calls outside this repository's \<^verbatim>\<open>ui/build\<close> sources: the Go standard
  library, Blueprint (\<open>pathtools.Glob\<close>, \<open>GetNinjaShardFiles\<close>, \<open>RunBlueprint\<close>),
  the \<open>shared\<close> package, the process runner, the clock, and the order in which the Go
  scheduler lets the glob workers run. \<open>goSchedule\<close> gives, for a target, the worker
  steps: which of the pending globs is taken next, and whether the worker's read of the
  shared flag \<open>hasChangedGlobs\<close> came before another worker set it.
\<close>

record Runtime =
  filepath_Join :: "string list \<Rightarrow> string"
  filepath_Dir :: "string \<Rightarrow> string"
  os_Getenv :: "string \<Rightarrow> string"
  time_Now :: int
  strconv_ParseInt :: "string \<Rightarrow> error + int"
  strings_TrimSpace :: "string \<Rightarrow> string"
  strings_Fields :: "string \<Rightarrow> string list"
  json_Decode :: "string \<Rightarrow> GlobResult list \<times> error option"
  pathtools_Glob :: "FileSystem \<Rightarrow> string \<Rightarrow> string list \<Rightarrow> error + GlobResult"
  GetNinjaShardFiles :: "string \<Rightarrow> string list"
  goSchedule :: "string \<Rightarrow> (nat \<times> bool) list"
  readKatiEnvFile :: "string \<Rightarrow> katiLine list"
  ExecutionMetrics_SetDir :: "string \<Rightarrow> string"
  shared_EnvFileContents :: "Environment \<Rightarrow> error + string"
  shared_StaleEnvFile :: "FileSystem \<Rightarrow> string \<Rightarrow> Environment \<Rightarrow> bool"
  ext_migrateOutputSymlinks :: "FileSystem \<Rightarrow> error option \<times> FileSystem"
  bootstrap_RunBlueprint :: "FileSystem \<Rightarrow> error option \<times> FileSystem"
  cmd_Run :: "string \<Rightarrow> string list \<Rightarrow> Environment \<Rightarrow> FileSystem \<Rightarrow> error option \<times> FileSystem"

datatype ninjaCommandType = NINJA_NINJA | NINJA_N2 | NINJA_SISO | NINJA_NINJAGO

datatype ninjaWeightListSource =
  NOT_USED | NINJA_LOG | EVENLY_DISTRIBUTED | EXTERNAL_FILE | HINT_FROM_SOONG

text \<open>
  \<open>Config\<close>: the fields and the results of the accessor methods that the modelled
  functions read (the type is declared in \<^verbatim>\<open>ui/build/config.go\<close>).
\<close>

record Config =
  ninjaCommand :: ninjaCommandType
  N2Bin :: string
  SisoBin :: string
  NinjaBin :: string
  OutDir :: string
  SoongOutDir :: string
  DistDir :: string
  Parallel :: int
  RemoteParallel :: int
  UseRemoteBuild :: bool
  keepGoing :: int
  CombinedNinjaFile :: string
  BuildBrokenMissingOutputs :: bool
  BuildBrokenNinjaUsesEnvVars :: "string list"
  HasKatiSuffix :: bool
  KatiEnvFile :: string
  NinjaWeightListSource :: ninjaWeightListSource
  ConfigEnvironment :: Environment
  SoongNinjaFile :: string
  ModuleGraphFile :: string
  SoongDocsHtml :: string
  SoongVarsFile :: string
  SoongExtraVarsFile :: string
  SoongAndroidMk :: string
  SoongMakeVarsMk :: string
  LogsDir :: string
  UsedEnvFile :: "string \<Rightarrow> string"
  JsonModuleGraph :: bool
  SoongDocs :: bool
  SoongBuildInvocationNeeded :: bool
  SkipKati :: bool

subsection \<open>System calls\<close>

definition os_Stat :: "FileSystem \<Rightarrow> string \<Rightarrow> error + File" where
  "os_Stat fs path =
     (case fault fs SysStat path of
        Some err \<Rightarrow> Inl err
      | None \<Rightarrow> (case files fs path of None \<Rightarrow> Inl ErrNotExist | Some f \<Rightarrow> Inr f))"

definition os_Open :: "FileSystem \<Rightarrow> string \<Rightarrow> error + File" where
  "os_Open fs path =
     (case fault fs SysOpen path of
        Some err \<Rightarrow> Inl err
      | None \<Rightarrow> (case files fs path of None \<Rightarrow> Inl ErrNotExist | Some f \<Rightarrow> Inr f))"

definition os_ReadFile :: "FileSystem \<Rightarrow> string \<Rightarrow> error + string" where
  "os_ReadFile fs path =
     (case fault fs SysRead path of
        Some err \<Rightarrow> Inl err
      | None \<Rightarrow> (case files fs path of None \<Rightarrow> Inl ErrNotExist | Some f \<Rightarrow> Inr (data f)))"

definition os_MkdirAll :: "FileSystem \<Rightarrow> string \<Rightarrow> error option" where
  "os_MkdirAll fs path = fault fs SysMkdirAll path"

definition putFile :: "Runtime \<Rightarrow> FileSystem \<Rightarrow> string \<Rightarrow> string \<Rightarrow> FileSystem" where
  "putFile rt fs path d =
     fs\<lparr>files := (files fs)(path \<mapsto> \<lparr>data = d, modTime = time_Now rt\<rparr>)\<rparr>"

definition os_WriteFile :: "Runtime \<Rightarrow> FileSystem \<Rightarrow> string \<Rightarrow> string \<Rightarrow> error + FileSystem" where
  "os_WriteFile rt fs path d =
     (case fault fs SysWrite path of
        Some err \<Rightarrow> Inl err
      | None \<Rightarrow> Inr (putFile rt fs path d))"

text \<open>\<^verbatim>\<open>os.Create\<close> makes the file or truncates it.\<close>

definition os_Create :: "Runtime \<Rightarrow> FileSystem \<Rightarrow> string \<Rightarrow> error + FileSystem" where
  "os_Create rt fs path =
     (case fault fs SysCreate path of
        Some err \<Rightarrow> Inl err
      | None \<Rightarrow> Inr (putFile rt fs path []))"

definition file_Close :: "FileSystem \<Rightarrow> string \<Rightarrow> error option" where
  "file_Close fs path = fault fs SysClose path"

text \<open>
  Every caller of \<^verbatim>\<open>os.Remove\<close> in the modelled code discards its error; the model
  removes the entry.
\<close>

definition os_Remove :: "FileSystem \<Rightarrow> string \<Rightarrow> FileSystem" where
  "os_Remove fs path = fs\<lparr>files := (files fs)(path := None)\<rparr>"

subsection \<open>Environment\<close>

text \<open>
  Modelled from the spec: \<^verbatim>\<open>ui/build/environment.go\<close> is not among the sources.
  \<open>Get\<close> finds the value of a key, \<open>Unset\<close> drops a key, \<open>Set\<close> replaces the entry
  of a key by a new last entry, \<open>Allow\<close> keeps exactly the entries whose key is listed
  (the restriction of the environment to an allowlist), and \<open>IsEnvTrue\<close> holds when the
  key is set to \<^verbatim>\<open>true\<close>. \<open>AppendFromKati\<close> applies the lines of the Kati script in
  order.
\<close>

definition Environment_Get :: "Environment \<Rightarrow> string \<Rightarrow> string option" where
  "Environment_Get e key = map_of e key"

definition Environment_Unset :: "Environment \<Rightarrow> string \<Rightarrow> Environment" where
  "Environment_Unset e key = filter (\<lambda>kv. fst kv \<noteq> key) e"

definition Environment_Set :: "Environment \<Rightarrow> string \<Rightarrow> string \<Rightarrow> Environment" where
  "Environment_Set e key v = Environment_Unset e key @ [(key, v)]"

definition Environment_Allow :: "Environment \<Rightarrow> string list \<Rightarrow> Environment" where
  "Environment_Allow e keys = filter (\<lambda>kv. fst kv \<in> set keys) e"

definition Environment_IsEnvTrue :: "Environment \<Rightarrow> string \<Rightarrow> bool" where
  "Environment_IsEnvTrue e key =
     (case Environment_Get e key of Some v \<Rightarrow> v = ''true'' | None \<Rightarrow> False)"

fun Environment_AppendFromKati :: "Environment \<Rightarrow> katiLine list \<Rightarrow> Environment" where
  "Environment_AppendFromKati e [] = e"
| "Environment_AppendFromKati e (KatiUnset k # ls) =
     Environment_AppendFromKati (Environment_Unset e k) ls"
| "Environment_AppendFromKati e (KatiExport k v # ls) =
     Environment_AppendFromKati (Environment_Set e k v) ls"

section \<open>ui/build/ninja.go\<close>

text \<open>
  \<open>runNinja\<close>, first part: the executable and the arguments of the command. The
  \<^verbatim>\<open>switch\<close> on \<open>config.ninjaCommand\<close> picks the executable and its first
  arguments; the \<^verbatim>\<open>default\<close> branch serves \<open>NINJA_NINJA\<close> and \<open>NINJA_NINJAGO\<close>.
  \<open>env\<close> is the command's environment at that point (after the Kati script), from
  which \<open>NINJA_ARGS\<close> and \<open>NINJA_EXTRA_ARGS\<close> are read.
\<close>

definition runNinja_executable :: "Runtime \<Rightarrow> Config \<Rightarrow> string \<times> string list" where
  "runNinja_executable rt config =
     (let fifo = filepath_Join rt [OutDir config, ''.ninja_fifo''] in
      case ninjaCommand config of
        NINJA_N2 \<Rightarrow> (N2Bin config, [''-d'', ''trace'', ''--frontend-file'', fifo])
      | NINJA_SISO \<Rightarrow> (SisoBin config, [''ninja'', ''--log_dir'', SoongOutDir config])
      | _ \<Rightarrow> (NinjaBin config,
               [''-d'', ''keepdepfile'', ''-d'', ''keeprsp'', ''-d'', ''stats'',
                ''--frontend_file'', fifo, ''-o'', ''usesphonyoutputs=yes'',
                ''-w'', ''dupbuild=err'', ''-w'', ''missingdepfile=err'']))"

definition envExtraArgs :: "Runtime \<Rightarrow> Environment \<Rightarrow> string \<Rightarrow> string list" where
  "envExtraArgs rt env key =
     (case Environment_Get env key of Some extra \<Rightarrow> strings_Fields rt extra | None \<Rightarrow> [])"

definition runNinja_Command ::
    "Runtime \<Rightarrow> Config \<Rightarrow> string list \<Rightarrow> Environment \<Rightarrow> string \<times> string list" where
  "runNinja_Command rt config ninjaArgs env =
     (let (executable, args0) = runNinja_executable rt config;
          args1 = args0 @ ninjaArgs;
          parallel = (if UseRemoteBuild config then RemoteParallel config else Parallel config);
          args2 = args1 @ [''-j'', Itoa parallel];
          args3 = (if keepGoing config \<noteq> 1 then args2 @ [''-k'', Itoa (keepGoing config)]
                   else args2);
          args4 = args3 @ [''-f'', CombinedNinjaFile config];
          args5 = (if \<not> BuildBrokenMissingOutputs config \<and> ninjaCommand config \<noteq> NINJA_N2
                   then args4 @ [''-w'', ''missingoutfile=err''] else args4);
          args6 = (if ninjaCommand config = NINJA_NINJA then
                     (case NinjaWeightListSource config of
                        NINJA_LOG \<Rightarrow> args5 @ [''-o'', ''usesninjalogasweightlist=yes'']
                      | EVENLY_DISTRIBUTED \<Rightarrow> args5 @ [''-o'', ''usesweightlist=/dev/null'']
                      | EXTERNAL_FILE \<Rightarrow>
                          args5 @ [''-o'', ''usesweightlist='' @
                            filepath_Join rt [OutDir config, ''.ninja_weight_list'']]
                      | HINT_FROM_SOONG \<Rightarrow>
                          args5 @ [''-o'', ''usesweightlist='' @
                            filepath_Join rt [OutDir config, ''.ninja_weight_list'']]
                      | NOT_USED \<Rightarrow> args5)
                   else args5)
      in (executable,
          args6 @ envExtraArgs rt env ''NINJA_ARGS'' @ envExtraArgs rt env ''NINJA_EXTRA_ARGS''))"

text \<open>The allowlist of \<open>runNinja\<close>, in the order of the source.\<close>

definition ninjaEnvAllowlist :: "string list" where
  "ninjaEnvAllowlist =
     [''ASAN_SYMBOLIZER_PATH'', ''HOME'', ''JAVA_HOME'', ''LANG'', ''LC_MESSAGES'',
      ''OUT_DIR'', ''PATH'', ''PWD'', ''PYTHONDONTWRITEBYTECODE'', ''TMPDIR'', ''USER'',
      ''ASAN_OPTIONS'', ''TARGET_BUILD_APPS'', ''TARGET_BUILD_VARIANT'', ''TARGET_PRODUCT'',
      ''EMMA_INSTRUMENT_FRAMEWORK'',
      ''RBE_compare'', ''RBE_num_local_reruns'', ''RBE_num_remote_reruns'', ''RBE_exec_root'',
      ''RBE_exec_strategy'', ''RBE_invocation_id'', ''RBE_log_dir'',
      ''RBE_num_retries_if_mismatched'', ''RBE_platform'', ''RBE_remote_accept_cache'',
      ''RBE_remote_update_cache'', ''RBE_server_address'',
      ''FLAG_compare'', ''FLAG_exec_root'', ''FLAG_exec_strategy'', ''FLAG_invocation_id'',
      ''FLAG_log_dir'', ''FLAG_platform'', ''FLAG_remote_accept_cache'',
      ''FLAG_remote_update_cache'', ''FLAG_server_address'',
      ''CCACHE_COMPILERCHECK'', ''CCACHE_SLOPPINESS'', ''CCACHE_BASEDIR'', ''CCACHE_CPP2'',
      ''CCACHE_DIR'',
      ''TOOLCHAIN_RUSAGE_OUTPUT'',
      ''BUILD_BROKEN_INCORRECT_PARTITION_IMAGES'',
      ''SOONG_NINJA'', ''SOONG_USE_N2'', ''RUST_BACKTRACE'', ''RUST_LOG'',
      ''SOONG_USE_PARTIAL_COMPILE'',
      ''SOONG_METRICS_AGGREGATION_DIR'']"

text \<open>
  \<open>runNinja\<close>, second part: the environment of the command. \<open>env\<close> is the copy of
  the configuration's environment that \<open>Command\<close> gives the new command.
\<close>

definition runNinja_kati :: "Runtime \<Rightarrow> Config \<Rightarrow> Environment \<Rightarrow> Environment" where
  "runNinja_kati rt config env =
     (if HasKatiSuffix config
      then Environment_AppendFromKati env (readKatiEnvFile rt (KatiEnvFile config))
      else env)"

definition runNinja_Environment :: "Runtime \<Rightarrow> Config \<Rightarrow> Environment \<Rightarrow> Environment" where
  "runNinja_Environment rt config env =
     (let env1 = runNinja_kati rt config env;
          env2 = (if Environment_IsEnvTrue env1 ''ALLOW_NINJA_ENV'' then env1
                  else Environment_Allow env1
                         (ninjaEnvAllowlist @ BuildBrokenNinjaUsesEnvVars config));
          env3 = Environment_Set env2 ''DIST_DIR'' (DistDir config);
          env4 = Environment_Set env3 ''SHELL'' ''/bin/bash'';
          env5 = (case ninjaCommand config of
                    NINJA_N2 \<Rightarrow> Environment_Set env4 ''RUST_BACKTRACE'' ''1''
                  | _ \<Rightarrow> env4)
      in Environment_Set env5 ''SOONG_METRICS_AGGREGATION_DIR''
           (ExecutionMetrics_SetDir rt
              (filepath_Join rt [OutDir config, ''soong'', ''metrics_aggregation''])))"

section \<open>ui/build/soong.go\<close>

subsection \<open>The bootstrap executor command inside \<open>runSoong\<close>\<close>

definition runSoong_ninja_Command ::
    "Runtime \<Rightarrow> Config \<Rightarrow> string list \<Rightarrow> string \<times> string list" where
  "runSoong_ninja_Command rt config targets =
     (let fifo = filepath_Join rt [OutDir config, ''.ninja_fifo''];
          bootstrapNinja = filepath_Join rt [SoongOutDir config, ''bootstrap.ninja''];
          (ninjaCmd, ninjaArgs) =
            (case ninjaCommand config of
               NINJA_N2 \<Rightarrow>
                 (N2Bin config,
                  [''-v'', ''-j'', Itoa (Parallel config), ''--frontend-file'', fifo,
                   ''-f'', bootstrapNinja])
             | NINJA_SISO \<Rightarrow>
                 (SisoBin config,
                  [''ninja'', ''-v'', ''-j'', Itoa (Parallel config),
                   ''--log_dir'', SoongOutDir config, ''-f'', bootstrapNinja])
             | _ \<Rightarrow>
                 (NinjaBin config,
                  [''-d'', ''keepdepfile'', ''-d'', ''stats'', ''-o'', ''usesphonyoutputs=yes'',
                   ''-o'', ''preremoveoutputs=yes'', ''-w'', ''dupbuild=err'',
                   ''-w'', ''outputdir=err'', ''-w'', ''missingoutfile=err'',
                   ''-j'', Itoa (Parallel config), ''--frontend_file'', fifo,
                   ''-f'', bootstrapNinja]))
      in (ninjaCmd,
          ninjaArgs @ envExtraArgs rt (ConfigEnvironment config) ''SOONG_UI_NINJA_ARGS''
            @ targets))"

subsection \<open>Files of the bootstrap\<close>

definition fileExists :: "FileSystem \<Rightarrow> string \<Rightarrow> bool \<times> error option" where
  "fileExists fs path =
     (case os_Stat fs path of
        Inl ErrNotExist \<Rightarrow> (False, None)
      | Inl err \<Rightarrow> (False, Some err)
      | Inr _ \<Rightarrow> (True, None))"

text \<open>
  \<open>ctx.Fatalf\<close> ends the build. A function that can call it returns an \<open>outcome\<close>
  together with the file system as it is at that moment.
\<close>

datatype outcome = Ok | Fatal string

definition writeEmptyFile :: "Runtime \<Rightarrow> FileSystem \<Rightarrow> string \<Rightarrow> outcome \<times> FileSystem" where
  "writeEmptyFile rt fs path =
     (case os_MkdirAll fs (filepath_Dir rt path) of
        Some err \<Rightarrow> (Fatal ''Failed to create parent directories of empty file'', fs)
      | None \<Rightarrow>
          (case fileExists fs path of
             (_, Some err) \<Rightarrow> (Fatal ''Failed to check if file exists'', fs)
           | (True, None) \<Rightarrow> (Ok, fs)
           | (False, None) \<Rightarrow>
               (case os_WriteFile rt fs path [] of
                  Inl err \<Rightarrow> (Fatal ''Failed to create empty file'', fs)
                | Inr fs' \<Rightarrow> (Ok, fs'))))"

definition bootstrapEpoch :: int where
  "bootstrapEpoch = 1"

definition epochPath :: "Runtime \<Rightarrow> Config \<Rightarrow> string" where
  "epochPath rt config =
     filepath_Join rt [SoongOutDir config, ''.soong.bootstrap.epoch.'' @ Itoa bootstrapEpoch]"

definition removeShardFile :: "FileSystem \<Rightarrow> string \<Rightarrow> FileSystem" where
  "removeShardFile fs file = (if fst (fileExists fs file) then os_Remove fs file else fs)"

definition bootstrapEpochCleanup :: "Runtime \<Rightarrow> Config \<Rightarrow> FileSystem \<Rightarrow> outcome \<times> FileSystem" where
  "bootstrapEpochCleanup rt config fs =
     (case fileExists fs (epochPath rt config) of
        (_, Some err) \<Rightarrow> (Fatal ''failed to check if bootstrap epoch file exists'', fs)
      | (True, None) \<Rightarrow> (Ok, fs)
      | (False, None) \<Rightarrow>
          (let soongNinjaFile = SoongNinjaFile config;
               fs1 = os_Remove fs soongNinjaFile;
               fs2 = foldl removeShardFile fs1 (GetNinjaShardFiles rt soongNinjaFile);
               fs3 = os_Remove fs2 (soongNinjaFile @ ''.globs'');
               fs4 = os_Remove fs3 (soongNinjaFile @ ''.globs_time'');
               fs5 = os_Remove fs4 (soongNinjaFile @ ''.glob_results'')
           in writeEmptyFile rt fs5 (epochPath rt config)))"

subsection \<open>Sets of names and paths used to state the properties\<close>

text \<open>The variables \<open>runNinja\<close> lets through, and the ones it sets itself.\<close>

definition ninjaAllowedKeys :: "Config \<Rightarrow> string set" where
  "ninjaAllowedKeys config = set ninjaEnvAllowlist \<union> set (BuildBrokenNinjaUsesEnvVars config)"

definition ninjaSetKeys :: "Config \<Rightarrow> string set" where
  "ninjaSetKeys config =
     {''DIST_DIR'', ''SHELL'', ''SOONG_METRICS_AGGREGATION_DIR''}
       \<union> (if ninjaCommand config = NINJA_N2 then {''RUST_BACKTRACE''} else {})"

text \<open>
  The paths \<open>bootstrapEpochCleanup\<close> removes when the tree is out of date: the Soong
  ninja file, its three glob companions, and each shard file whose existence check does
  not fail.
\<close>

definition cleanedFiles :: "Runtime \<Rightarrow> Config \<Rightarrow> FileSystem \<Rightarrow> string set" where
  "cleanedFiles rt config fs =
     {SoongNinjaFile config, SoongNinjaFile config @ ''.globs'',
      SoongNinjaFile config @ ''.globs_time'', SoongNinjaFile config @ ''.glob_results''}
       \<union> {file \<in> set (GetNinjaShardFiles rt (SoongNinjaFile config)).
            fault fs SysStat file = None}"

definition withoutFiles :: "FileSystem \<Rightarrow> string set \<Rightarrow> FileSystem" where
  "withoutFiles fs D = fs\<lparr>files := (\<lambda>p. if p \<in> D then None else files fs p)\<rparr>"

text \<open>The variables \<open>runNinja\<close> sets after filtering, as one function.\<close>

definition ninjaSets :: "Runtime \<Rightarrow> Config \<Rightarrow> Environment \<Rightarrow> Environment" where
  "ninjaSets rt config env2 =
     (let env3 = Environment_Set env2 ''DIST_DIR'' (DistDir config);
          env4 = Environment_Set env3 ''SHELL'' ''/bin/bash'';
          env5 = (case ninjaCommand config of
                    NINJA_N2 \<Rightarrow> Environment_Set env4 ''RUST_BACKTRACE'' ''1''
                  | _ \<Rightarrow> env4)
      in Environment_Set env5 ''SOONG_METRICS_AGGREGATION_DIR''
           (ExecutionMetrics_SetDir rt
              (filepath_Join rt [OutDir config, ''soong'', ''metrics_aggregation''])))"

subsection \<open>checkGlobs\<close>

text \<open>
  The state the glob workers share: the flag \<open>hasChangedGlobs\<close>, the name of a culprit
  glob, and the errors sent on \<open>errorsChan\<close>, in the order of their arrival.
\<close>

record GlobState =
  hasChangedGlobs :: bool
  changedGlobName :: string
  errorsChan :: "error list"

text \<open>
  The loop over \<open>cachedGlob.Deps\<close>: it stops with \<open>hasNewDep = true\<close> at the first
  dependency that is missing (\<open>ErrNotExist\<close> or \<open>ENOTDIR\<close>) or newer than
  \<open>globsTimeMicros\<close>; any other error of \<^verbatim>\<open>os.Stat\<close> is sent on the channel and the
  loop goes on with the next dependency.
\<close>

fun hasNewDep :: "FileSystem \<Rightarrow> int \<Rightarrow> string list \<Rightarrow> bool \<times> error list" where
  "hasNewDep fs globsTimeMicros [] = (False, [])"
| "hasNewDep fs globsTimeMicros (dep # deps) =
     (case os_Stat fs dep of
        Inl ErrNotExist \<Rightarrow> (True, [])
      | Inl ENOTDIR \<Rightarrow> (True, [])
      | Inl (Err m) \<Rightarrow>
          (case hasNewDep fs globsTimeMicros deps of (b, errs) \<Rightarrow> (b, Err m # errs))
      | Inr info \<Rightarrow>
          if modTime info > globsTimeMicros then (True, [])
          else hasNewDep fs globsTimeMicros deps)"

fun strings_Join :: "string list \<Rightarrow> string \<Rightarrow> string" where
  "strings_Join [] sep = []"
| "strings_Join [x] sep = x"
| "strings_Join (x # y # ys) sep = x @ sep @ strings_Join (y # ys) sep"

definition culpritName :: "GlobResult \<Rightarrow> string" where
  "culpritName result =
     (if length (Excludes result) > 2 then
        Pattern result @ '' (excluding '' @ Itoa (int (length (Excludes result)))
          @ '' other patterns)''
      else if length (Excludes result) > 0 then
        Pattern result @ '' (excluding '' @ strings_Join (Excludes result) '' and '' @ '')''
      else Pattern result)"

text \<open>
  One iteration of a worker on the glob it received. \<open>early\<close> says that the worker read
  \<open>hasChangedGlobs\<close> before another worker set it, so that it saw \<^verbatim>\<open>false\<close>.
\<close>

definition checkCachedGlob ::
    "Runtime \<Rightarrow> FileSystem \<Rightarrow> int \<Rightarrow> bool \<Rightarrow> GlobResult \<Rightarrow> GlobState \<Rightarrow> GlobState" where
  "checkCachedGlob rt fs globsTimeMicros early cachedGlob st =
     (if hasChangedGlobs st \<and> \<not> early then st
      else
        (case hasNewDep fs globsTimeMicros (Deps cachedGlob) of
           (newDep, errs) \<Rightarrow>
             (let st1 = st\<lparr>errorsChan := errorsChan st @ errs\<rparr> in
              if \<not> newDep then st1
              else
                (case pathtools_Glob rt fs (Pattern cachedGlob) (Excludes cachedGlob) of
                   Inl err \<Rightarrow> st1\<lparr>errorsChan := errorsChan st1 @ [err]\<rparr>
                 | Inr result \<Rightarrow>
                     if Matches result \<noteq> Matches cachedGlob
                     then st1\<lparr>hasChangedGlobs := True, changedGlobName := culpritName result\<rparr>
                     else st1))))"

text \<open>
  The pool of workers draining \<open>globsChan\<close>, under a schedule: each entry \<open>(i, early)\<close>
  picks the pending glob whose iteration comes next and says how its read of the flag
  fell; when the schedule is used up the remaining globs are taken in order.
\<close>

function runWorkers ::
    "(bool \<Rightarrow> GlobResult \<Rightarrow> GlobState \<Rightarrow> GlobState) \<Rightarrow> (nat \<times> bool) list \<Rightarrow> GlobResult list
       \<Rightarrow> GlobState \<Rightarrow> GlobState" where
  "runWorkers step sched [] st = st"
| "runWorkers step [] (g # gs) st = runWorkers step [] gs (step False g st)"
| "runWorkers step ((i, early) # sched) (g # gs) st =
     runWorkers step sched
       (take (i mod length (g # gs)) (g # gs) @ drop (Suc (i mod length (g # gs))) (g # gs))
       (step early ((g # gs) ! (i mod length (g # gs))) st)"
  by pat_completeness auto
termination
  by (relation "measure (\<lambda>(step, sched, gs, st). length gs)") auto

definition checkGlobs :: "Runtime \<Rightarrow> FileSystem \<Rightarrow> string \<Rightarrow> error option \<times> FileSystem" where
  "checkGlobs rt fs finalOutFile =
     (case os_Open fs (finalOutFile @ ''.globs'') of
        Inl ErrNotExist \<Rightarrow>
          (case os_MkdirAll fs (filepath_Dir rt finalOutFile) of
             Some err \<Rightarrow> (Some err, fs)
           | None \<Rightarrow>
               (case os_Create rt fs (finalOutFile @ ''.glob_results'') of
                  Inl err \<Rightarrow> (Some err, fs)
                | Inr fs' \<Rightarrow> (file_Close fs' (finalOutFile @ ''.glob_results''), fs')))
      | Inl err \<Rightarrow> (Some err, fs)
      | Inr globsFile \<Rightarrow>
          (case os_ReadFile fs (finalOutFile @ ''.globs_time'') of
             Inl err \<Rightarrow> (Some err, fs)
           | Inr globsTimeBytes \<Rightarrow>
               (case strconv_ParseInt rt (strings_TrimSpace rt globsTimeBytes) of
                  Inl err \<Rightarrow> (Some err, fs)
                | Inr globsTimeMicros \<Rightarrow>
                    (let globCheckStartTime = time_Now rt in
                     case json_Decode rt (data globsFile) of
                       (cached, Some err) \<Rightarrow> (Some err, fs)
                     | (cached, None) \<Rightarrow>
                         (let st = runWorkers (checkCachedGlob rt fs globsTimeMicros)
                                     (goSchedule rt finalOutFile) cached
                                     \<lparr>hasChangedGlobs = False, changedGlobName = [],
                                      errorsChan = []\<rparr>
                          in case errorsChan st of
                               errFromGoRoutines # _ \<Rightarrow> (Some errFromGoRoutines, fs)
                             | [] \<Rightarrow>
                                 (case os_WriteFile rt fs (finalOutFile @ ''.globs_time'')
                                         (Itoa globCheckStartTime @ [CHR 0x0A]) of
                                    Inl err \<Rightarrow> (Some err, fs)
                                  | Inr fs1 \<Rightarrow>
                                      if hasChangedGlobs st then
                                        (case os_WriteFile rt fs1
                                                (finalOutFile @ ''.glob_results'')
                                                (Itoa globCheckStartTime @ [CHR 0x0A]) of
                                           Inl err \<Rightarrow> (Some err, fs1)
                                         | Inr fs2 \<Rightarrow> (None, fs2))
                                      else (None, fs1)))))))"

text \<open>
  What the properties of \<open>checkGlobs\<close> speak of. A cached glob has changed when one of
  its dependencies is missing or newer than the recorded time and running the glob again
  gives other matches than the cached ones. A cached glob is readable when no
  \<^verbatim>\<open>os.Stat\<close> of its dependency loop and no rerun of the glob fails.
\<close>

definition globChanged :: "Runtime \<Rightarrow> FileSystem \<Rightarrow> int \<Rightarrow> GlobResult \<Rightarrow> bool" where
  "globChanged rt fs globsTimeMicros g =
     (fst (hasNewDep fs globsTimeMicros (Deps g)) \<and>
      (case pathtools_Glob rt fs (Pattern g) (Excludes g) of
         Inl err \<Rightarrow> False
       | Inr result \<Rightarrow> Matches result \<noteq> Matches g))"

definition globReadable :: "Runtime \<Rightarrow> FileSystem \<Rightarrow> int \<Rightarrow> GlobResult \<Rightarrow> bool" where
  "globReadable rt fs globsTimeMicros g =
     (snd (hasNewDep fs globsTimeMicros (Deps g)) = [] \<and>
      \<not> (fst (hasNewDep fs globsTimeMicros (Deps g)) \<and>
         isl (pathtools_Glob rt fs (Pattern g) (Excludes g))))"

definition noGlobState :: GlobState where
  "noGlobState = \<lparr>hasChangedGlobs = False, changedGlobName = [], errorsChan = []\<rparr>"

section \<open>Example inputs\<close>

text \<open>
  A small build tree used to run the definitions: the Soong ninja file
  \<^verbatim>\<open>out/soong/build.ninja\<close> with its glob cache (one glob \<^verbatim>\<open>src/*.c\<close> that matched
  \<^verbatim>\<open>src/a.c\<close> at time 100), a source directory changed at time 200 in which the glob
  now also matches \<^verbatim>\<open>src/b.c\<close>, and the clock at 300.
\<close>

definition joinPath :: "string list \<Rightarrow> string" where
  "joinPath ps = strings_Join (filter (\<lambda>p. p \<noteq> []) ps) ''/''"

definition dirOf :: "string \<Rightarrow> string" where
  "dirOf p = rev (drop 1 (dropWhile (\<lambda>c. c \<noteq> CHR ''/'') (rev p)))"

definition exampleGlob :: GlobResult where
  "exampleGlob =
     \<lparr>Pattern = ''src/*.c'', Excludes = [], Matches = [''src/a.c''], Deps = [''src'']\<rparr>"

definition exampleRuntime :: Runtime where
  "exampleRuntime =
     \<lparr> filepath_Join = joinPath,
       filepath_Dir = dirOf,
       os_Getenv = (\<lambda>k. []),
       time_Now = 300,
       strconv_ParseInt = (\<lambda>s. if s = ''100'' then Inr 100 else Inl (Err ''invalid syntax'')),
       strings_TrimSpace = filter (\<lambda>c. c \<noteq> CHR 0x0A),
       strings_Fields = (\<lambda>s. if s = [] then [] else [s]),
       json_Decode = (\<lambda>s. if s = ''G'' then ([exampleGlob], None)
                           else ([], Some (Err ''invalid character''))),
       pathtools_Glob = (\<lambda>fs pattern excludes.
          Inr \<lparr>Pattern = pattern, Excludes = excludes,
                Matches = [''src/a.c'', ''src/b.c''], Deps = [''src'']\<rparr>),
       GetNinjaShardFiles = (\<lambda>f. [f @ ''.0'', f @ ''.1'']),
       goSchedule = (\<lambda>target. [(0, True)]),
       readKatiEnvFile = (\<lambda>f. []),
       ExecutionMetrics_SetDir = (\<lambda>d. d),
       shared_EnvFileContents = (\<lambda>e. Inr []),
       shared_StaleEnvFile = (\<lambda>fs f e. False),
       ext_migrateOutputSymlinks = (\<lambda>fs. (None, fs)),
       bootstrap_RunBlueprint = (\<lambda>fs. (None, fs)),
       cmd_Run = (\<lambda>c a e fs. (None, fs)) \<rparr>"

text \<open>The same runtime with a glob that still matches what the cache holds.\<close>

definition unchangedRuntime :: Runtime where
  "unchangedRuntime =
     exampleRuntime\<lparr>pathtools_Glob := (\<lambda>fs pattern excludes. Inr exampleGlob)\<rparr>"

definition exampleConfig :: Config where
  "exampleConfig =
     \<lparr> ninjaCommand = NINJA_SISO,
       N2Bin = ''prebuilts/build-tools/linux-x86/bin/n2'',
       SisoBin = ''prebuilts/build-tools/linux-x86/bin/siso'',
       NinjaBin = ''prebuilts/build-tools/linux-x86/bin/ninja'',
       OutDir = ''out'',
       SoongOutDir = ''out/soong'',
       DistDir = ''out/dist'',
       Parallel = 8,
       RemoteParallel = 64,
       UseRemoteBuild = False,
       keepGoing = 1,
       CombinedNinjaFile = ''out/combined.ninja'',
       BuildBrokenMissingOutputs = False,
       BuildBrokenNinjaUsesEnvVars = [''MY_TOOL_HOME''],
       HasKatiSuffix = False,
       KatiEnvFile = ''out/env.sh'',
       NinjaWeightListSource = NOT_USED,
       ConfigEnvironment = [(''PATH'', ''/usr/bin''), (''SECRET'', ''x'')],
       SoongNinjaFile = ''out/soong/build.ninja'',
       ModuleGraphFile = ''out/soong/module-graph.json'',
       SoongDocsHtml = ''out/soong/docs/soong_build.html'',
       SoongVarsFile = ''out/soong/soong.variables'',
       SoongExtraVarsFile = ''out/soong/soong.extra.variables'',
       SoongAndroidMk = ''out/soong/Android.mk'',
       SoongMakeVarsMk = ''out/soong/make_vars.mk'',
       LogsDir = ''out'',
       UsedEnvFile = (\<lambda>tag. ''out/soong/soong.environment.used.'' @ tag),
       JsonModuleGraph = False,
       SoongDocs = False,
       SoongBuildInvocationNeeded = True,
       SkipKati = True \<rparr>"

definition noFault :: "syscall \<Rightarrow> string \<Rightarrow> error option" where
  "noFault call path = None"

definition exampleFS :: FileSystem where
  "exampleFS =
     \<lparr> files = map_of
         [(''out/soong/build.ninja'', \<lparr>data = ''rule'', modTime = 50\<rparr>),
          (''out/soong/build.ninja.globs'', \<lparr>data = ''G'', modTime = 50\<rparr>),
          (''out/soong/build.ninja.globs_time'', \<lparr>data = ''100'' @ [CHR 0x0A], modTime = 50\<rparr>),
          (''out/soong/build.ninja.glob_results'', \<lparr>data = [], modTime = 50\<rparr>),
          (''src'', \<lparr>data = [], modTime = 200\<rparr>)],
       fault = noFault \<rparr>"

text \<open>A fresh tree whose output directory cannot be created.\<close>

definition readOnlyFS :: FileSystem where
  "readOnlyFS =
     \<lparr> files = (\<lambda>p. None),
       fault = (\<lambda>call path. if call = SysMkdirAll then Some (Err ''read-only file system'')
                              else None) \<rparr>"

text \<open>The example tree, where \<^verbatim>\<open>build.ninja.globs_time\<close> cannot be written.\<close>

definition writeProtectedFS :: FileSystem where
  "writeProtectedFS =
     exampleFS\<lparr>fault := (\<lambda>call path.
        if call = SysWrite \<and> path = ''out/soong/build.ninja.globs_time''
        then Some (Err ''permission denied'') else None)\<rparr>"

text \<open>A tree in which nothing has been built yet.\<close>

definition freshFS :: FileSystem where
  "freshFS = \<lparr> files = (\<lambda>p. None), fault = noFault \<rparr>"

text \<open>A tree that is up to date for the current bootstrap epoch.\<close>

definition markedFS :: FileSystem where
  "markedFS =
     \<lparr> files = map_of
         [(''out/soong/.soong.bootstrap.epoch.1'', \<lparr>data = [], modTime = 10\<rparr>),
          (''out/soong/build.ninja'', \<lparr>data = ''rule'', modTime = 50\<rparr>)],
       fault = noFault \<rparr>"

section \<open>Theorems: cc/api\_level.go\<close>

lemma MinApiForArch_defined:
  "arch \<in> {Arm, X86, Arm64, X86_64, Riscv64} \<Longrightarrow> \<exists>m. MinApiForArch ctx arch = Returns m"
  by auto

lemma MinApiForArch_panics:
  "arch \<notin> {Arm, X86, Arm64, X86_64, Riscv64} \<Longrightarrow> \<exists>msg. MinApiForArch ctx arch = Panics msg"
  by (cases arch) auto

text \<open>
  Claim C8. Let \<open>m\<close> be what \<open>MinApiForArch\<close> returns for the context's
  architecture. Then \<open>NativeApiLevelFromUser\<close> on \<open>''minimum''\<close> returns exactly
  \<open>m\<close> with no error; on a parse error of any other string it returns
  \<open>NoneApiLevel\<close> together with that error; a successfully parsed level \<open>v\<close> comes
  back as \<open>m\<close> when \<open>v\<close> is less than \<open>m\<close> and unchanged otherwise; hence (the
  order \<open>LessThan\<close> relating no level to itself) a level returned without error is
  never less than \<open>m\<close>. \<open>MinApiForArch\<close> returns a level on Arm, X86, Arm64,
  X86\_64 and Riscv64 and panics on every other architecture.
\<close>

theorem NativeApiLevelFromUser_clamps:
  assumes m: "MinApiForArch ctx (ctx_ArchType ctx) = Returns m"
  shows "NativeApiLevelFromUser ctx ''minimum'' = Returns (m, None)
       \<and> (\<forall>raw e. raw \<noteq> ''minimum'' \<and> ApiLevelFromUser ctx raw = Inl e \<longrightarrow>
            NativeApiLevelFromUser ctx raw = Returns (NoneApiLevel ctx, Some e))
       \<and> (\<forall>raw v. raw \<noteq> ''minimum'' \<and> ApiLevelFromUser ctx raw = Inr v \<longrightarrow>
            NativeApiLevelFromUser ctx raw =
              Returns (if LessThan ctx v m then m else v, None))
       \<and> (\<forall>raw v. \<not> LessThan ctx m m \<and> NativeApiLevelFromUser ctx raw = Returns (v, None) \<longrightarrow>
            \<not> LessThan ctx v m)
       \<and> (\<forall>arch. (arch \<in> {Arm, X86, Arm64, X86_64, Riscv64} \<longrightarrow>
                    (\<exists>l. MinApiForArch ctx arch = Returns l))
                \<and> (arch \<notin> {Arm, X86, Arm64, X86_64, Riscv64} \<longrightarrow>
                    (\<exists>msg. MinApiForArch ctx arch = Panics msg)))"
proof -
  have a: "NativeApiLevelFromUser ctx ''minimum'' = Returns (m, None)"
    by (simp add: NativeApiLevelFromUser_def m)
  have b: "NativeApiLevelFromUser ctx raw = Returns (NoneApiLevel ctx, Some e)"
    if "raw \<noteq> ''minimum''" "ApiLevelFromUser ctx raw = Inl e" for raw e
    using that by (simp add: NativeApiLevelFromUser_def)
  have c: "NativeApiLevelFromUser ctx raw = Returns (if LessThan ctx v m then m else v, None)"
    if "raw \<noteq> ''minimum''" "ApiLevelFromUser ctx raw = Inr v" for raw v
    using that by (simp add: NativeApiLevelFromUser_def nativeClampedApiLevel_def m)
  have d: "\<not> LessThan ctx v m"
    if irr: "\<not> LessThan ctx m m" and r: "NativeApiLevelFromUser ctx raw = Returns (v, None)"
    for raw v
  proof (cases "raw = ''minimum''")
    case True
    with r a have "v = m" by simp
    with irr show ?thesis by simp
  next
    case False
    show ?thesis
    proof (cases "ApiLevelFromUser ctx raw")
      case (Inl e)
      with False r b show ?thesis by simp
    next
      case (Inr u)
      with False r c have "v = (if LessThan ctx u m then m else u)" by simp
      with irr show ?thesis by (simp split: if_splits)
    qed
  qed
  show ?thesis
  proof (intro conjI allI impI)
    show "NativeApiLevelFromUser ctx ''minimum'' = Returns (m, None)"
      by (rule a)
  next
    fix raw e
    assume "raw \<noteq> ''minimum'' \<and> ApiLevelFromUser ctx raw = Inl e"
    then show "NativeApiLevelFromUser ctx raw = Returns (NoneApiLevel ctx, Some e)"
      by (elim conjE) (rule b)
  next
    fix raw v
    assume "raw \<noteq> ''minimum'' \<and> ApiLevelFromUser ctx raw = Inr v"
    then show "NativeApiLevelFromUser ctx raw =
        Returns (if LessThan ctx v m then m else v, None)"
      by (elim conjE) (rule c)
  next
    fix raw v
    assume "\<not> LessThan ctx m m \<and> NativeApiLevelFromUser ctx raw = Returns (v, None)"
    then show "\<not> LessThan ctx v m"
      by (elim conjE) (rule d)
  next
    fix arch
    assume "arch \<in> {Arm, X86, Arm64, X86_64, Riscv64}"
    then show "\<exists>l. MinApiForArch ctx arch = Returns l"
      by (rule MinApiForArch_defined)
  next
    fix arch
    assume "arch \<notin> {Arm, X86, Arm64, X86_64, Riscv64}"
    then show "\<exists>msg. MinApiForArch ctx arch = Panics msg"
      by (rule MinApiForArch_panics)
  qed
qed

theorem NativeApiLevelFromUser_clamps_witness:
  "MinApiForArch exampleApiCtx (ctx_ArchType exampleApiCtx) = Returns 21
   \<and> NativeApiLevelFromUser exampleApiCtx ''minimum'' = Returns (21, None)
   \<and> NativeApiLevelFromUser exampleApiCtx ''16'' = Returns (21, None)
   \<and> NativeApiLevelFromUser exampleApiCtx ''30'' = Returns (30, None)
   \<and> NativeApiLevelFromUser exampleApiCtx ''x'' = Returns (- 1, Some (Err ''not a valid API level''))
   \<and> (\<exists>msg. MinApiForArch exampleApiCtx Common = Panics msg)"
proof -
  have m: "MinApiForArch exampleApiCtx (ctx_ArchType exampleApiCtx) = Returns 21"
    by (simp add: exampleApiCtx_def)
  have p16: "ApiLevelFromUser exampleApiCtx ''16'' = Inr 16"
    and p30: "ApiLevelFromUser exampleApiCtx ''30'' = Inr 30"
    and px: "ApiLevelFromUser exampleApiCtx ''x'' = Inl (Err ''not a valid API level'')"
    and lt: "LessThan exampleApiCtx = (<)"
    and none: "NoneApiLevel exampleApiCtx = - 1"
    by (simp_all add: exampleApiCtx_def)
  note t = NativeApiLevelFromUser_clamps [OF m]
  have r0: "NativeApiLevelFromUser exampleApiCtx ''minimum'' = Returns (21, None)"
    by (rule t [THEN conjunct1])
  have ne: "''16'' \<noteq> ''minimum''" "''30'' \<noteq> ''minimum''" "''x'' \<noteq> ''minimum''"
    by simp_all
  note parsed = t [THEN conjunct2, THEN conjunct2, THEN conjunct1, rule_format, OF conjI]
  have r16: "NativeApiLevelFromUser exampleApiCtx ''16'' = Returns (21, None)"
    using parsed [OF ne(1) p16] by (simp add: lt)
  have r30: "NativeApiLevelFromUser exampleApiCtx ''30'' = Returns (30, None)"
    using parsed [OF ne(2) p30] by (simp add: lt)
  have rx: "NativeApiLevelFromUser exampleApiCtx ''x'' =
      Returns (- 1, Some (Err ''not a valid API level''))"
    using t [THEN conjunct2, THEN conjunct1, rule_format, OF conjI, OF ne(3) px]
    by (simp add: none)
  have pc: "\<exists>msg. MinApiForArch exampleApiCtx Common = Panics msg"
    by simp
  from m r0 r16 r30 rx pc show ?thesis by (intro conjI)
qed


section \<open>Theorems: the executor command\<close>

lemma runNinja_Command_shape:
  "\<exists>more. runNinja_Command rt config ninjaArgs env =
     (fst (runNinja_executable rt config), snd (runNinja_executable rt config) @ more)"
  by (simp add: runNinja_Command_def Let_def split_def split: ninjaWeightListSource.split)

text \<open>
  Claim C3. Both places that start an executor, \<open>runNinja\<close> and the bootstrap step of
  \<open>runSoong\<close>, build one command whose executable depends on \<open>config.ninjaCommand\<close>
  only: \<open>N2Bin\<close> for \<open>NINJA_N2\<close>, \<open>SisoBin\<close> for \<open>NINJA_SISO\<close>, \<open>NinjaBin\<close> in
  every other case. For Siso the first argument is the subcommand \<^verbatim>\<open>ninja\<close>; for the
  other executors the first argument is a different one.
\<close>

theorem executor_chosen_by_ninjaCommand:
  "fst (runNinja_Command rt config ninjaArgs env) =
     (case ninjaCommand config of
        NINJA_N2 \<Rightarrow> N2Bin config | NINJA_SISO \<Rightarrow> SisoBin config | _ \<Rightarrow> NinjaBin config)
   \<and> fst (runSoong_ninja_Command rt config targets) =
     (case ninjaCommand config of
        NINJA_N2 \<Rightarrow> N2Bin config | NINJA_SISO \<Rightarrow> SisoBin config | _ \<Rightarrow> NinjaBin config)
   \<and> (ninjaCommand config = NINJA_SISO \<longrightarrow>
        (\<exists>more. snd (runNinja_Command rt config ninjaArgs env) = ''ninja'' # more)
        \<and> (\<exists>more. snd (runSoong_ninja_Command rt config targets) = ''ninja'' # more))
   \<and> (ninjaCommand config \<noteq> NINJA_SISO \<longrightarrow>
        (\<exists>a more. snd (runNinja_Command rt config ninjaArgs env) = a # more \<and> a \<noteq> ''ninja'')
        \<and> (\<exists>a more. snd (runSoong_ninja_Command rt config targets) = a # more \<and> a \<noteq> ''ninja''))"
proof -
  obtain more where c: "runNinja_Command rt config ninjaArgs env =
     (fst (runNinja_executable rt config), snd (runNinja_executable rt config) @ more)"
    using runNinja_Command_shape by blast
  show ?thesis
    by (cases "ninjaCommand config")
       (simp_all add: c runNinja_executable_def runSoong_ninja_Command_def Let_def)
qed

theorem executor_chosen_by_ninjaCommand_witness:
  "fst (runNinja_Command exampleRuntime exampleConfig [''droid''] [])
     = ''prebuilts/build-tools/linux-x86/bin/siso''
   \<and> (\<exists>more. snd (runNinja_Command exampleRuntime exampleConfig [''droid''] [])
         = ''ninja'' # more)
   \<and> fst (runSoong_ninja_Command exampleRuntime (exampleConfig\<lparr>ninjaCommand := NINJA_N2\<rparr>)
         [''out/soong/build.ninja''])
     = ''prebuilts/build-tools/linux-x86/bin/n2''
   \<and> (\<exists>a more. snd (runSoong_ninja_Command exampleRuntime
           (exampleConfig\<lparr>ninjaCommand := NINJA_N2\<rparr>) [''out/soong/build.ninja''])
         = a # more \<and> a \<noteq> ''ninja'')"
proof -
  have s: "ninjaCommand exampleConfig = NINJA_SISO"
    and sb: "SisoBin exampleConfig = ''prebuilts/build-tools/linux-x86/bin/siso''"
    by (simp_all add: exampleConfig_def)
  have n: "ninjaCommand (exampleConfig\<lparr>ninjaCommand := NINJA_N2\<rparr>) = NINJA_N2"
    and nb: "N2Bin (exampleConfig\<lparr>ninjaCommand := NINJA_N2\<rparr>)
      = ''prebuilts/build-tools/linux-x86/bin/n2''"
    by (simp_all add: exampleConfig_def)
  note t1 = executor_chosen_by_ninjaCommand
    [of exampleRuntime exampleConfig "[''droid'']" "[]" "[''out/soong/build.ninja'']"]
  note t2 = executor_chosen_by_ninjaCommand
    [of exampleRuntime "exampleConfig\<lparr>ninjaCommand := NINJA_N2\<rparr>" "[''droid'']" "[]"
        "[''out/soong/build.ninja'']"]
  from t1 have a: "fst (runNinja_Command exampleRuntime exampleConfig [''droid''] [])
     = ''prebuilts/build-tools/linux-x86/bin/siso''"
    by (simp only: s sb ninjaCommandType.case)
  from t1 [THEN conjunct2, THEN conjunct2, THEN conjunct1, rule_format, OF s]
  have b: "\<exists>more. snd (runNinja_Command exampleRuntime exampleConfig [''droid''] [])
         = ''ninja'' # more"
    by (rule conjunct1)
  from t2 [THEN conjunct2, THEN conjunct1]
  have c: "fst (runSoong_ninja_Command exampleRuntime (exampleConfig\<lparr>ninjaCommand := NINJA_N2\<rparr>)
         [''out/soong/build.ninja''])
     = ''prebuilts/build-tools/linux-x86/bin/n2''"
    by (simp only: n nb ninjaCommandType.case)
  have ns: "ninjaCommand (exampleConfig\<lparr>ninjaCommand := NINJA_N2\<rparr>) \<noteq> NINJA_SISO"
    by (simp add: n)
  from t2 [THEN conjunct2, THEN conjunct2, THEN conjunct2, rule_format, OF ns]
  have d: "\<exists>a more. snd (runSoong_ninja_Command exampleRuntime
           (exampleConfig\<lparr>ninjaCommand := NINJA_N2\<rparr>) [''out/soong/build.ninja''])
         = a # more \<and> a \<noteq> ''ninja''"
    by (rule conjunct2)
  from a b c d show ?thesis by (intro conjI)
qed

section \<open>Theorems: the executor's environment\<close>

lemma Get_Unset:
  "Environment_Get (Environment_Unset e key) k = (if k = key then None else Environment_Get e k)"
  by (induction e) (auto simp: Environment_Get_def Environment_Unset_def)

lemma Get_Set:
  "Environment_Get (Environment_Set e key v) k = (if k = key then Some v else Environment_Get e k)"
  using Get_Unset [of e key k]
  by (auto simp: Environment_Set_def Environment_Get_def map_add_def split: option.splits)

lemma Get_Allow:
  "Environment_Get (Environment_Allow e keys) k =
     (if k \<in> set keys then Environment_Get e k else None)"
  by (induction e) (auto simp: Environment_Get_def Environment_Allow_def)

lemma keys_Unset: "fst ` set (Environment_Unset e key) \<subseteq> fst ` set e"
  by (auto simp: Environment_Unset_def)

lemma keys_Set: "fst ` set (Environment_Set e key v) \<subseteq> insert key (fst ` set e)"
  by (auto simp: Environment_Set_def Environment_Unset_def)

lemma keys_Allow: "fst ` set (Environment_Allow e keys) \<subseteq> set keys"
  by (auto simp: Environment_Allow_def)

lemma Allow_Unset:
  "Environment_Allow (Environment_Unset e k) K =
   Environment_Allow (Environment_Unset (Environment_Allow e K) k) K"
  by (induction e) (auto simp: Environment_Allow_def Environment_Unset_def)

lemma Allow_Set:
  "Environment_Allow (Environment_Set e k v) K =
   Environment_Allow (Environment_Set (Environment_Allow e K) k v) K"
  using Allow_Unset [of e k K]
  by (simp add: Environment_Set_def Environment_Allow_def)

lemma Allow_AppendFromKati:
  "Environment_Allow (Environment_AppendFromKati e ls) K =
   Environment_Allow (Environment_AppendFromKati (Environment_Allow e K) ls) K"
proof (induction ls arbitrary: e)
  case Nil
  show ?case by (simp add: Environment_Allow_def)
next
  case (Cons l ls)
  show ?case
  proof (cases l)
    case (KatiExport k v)
    have "Environment_Allow (Environment_AppendFromKati (Environment_Set e k v) ls) K =
          Environment_Allow (Environment_AppendFromKati
             (Environment_Allow (Environment_Set e k v) K) ls) K"
      by (rule Cons.IH)
    also have "\<dots> = Environment_Allow (Environment_AppendFromKati
             (Environment_Allow (Environment_Set (Environment_Allow e K) k v) K) ls) K"
      by (simp add: Allow_Set [of e k v K])
    also have "\<dots> = Environment_Allow (Environment_AppendFromKati
             (Environment_Set (Environment_Allow e K) k v) ls) K"
      by (rule Cons.IH [symmetric])
    finally show ?thesis by (simp add: KatiExport)
  next
    case (KatiUnset k)
    have "Environment_Allow (Environment_AppendFromKati (Environment_Unset e k) ls) K =
          Environment_Allow (Environment_AppendFromKati
             (Environment_Allow (Environment_Unset e k) K) ls) K"
      by (rule Cons.IH)
    also have "\<dots> = Environment_Allow (Environment_AppendFromKati
             (Environment_Allow (Environment_Unset (Environment_Allow e K) k) K) ls) K"
      by (simp add: Allow_Unset [of e k K])
    also have "\<dots> = Environment_Allow (Environment_AppendFromKati
             (Environment_Unset (Environment_Allow e K) k) ls) K"
      by (rule Cons.IH [symmetric])
    finally show ?thesis by (simp add: KatiUnset)
  qed
qed

lemma Allow_kati:
  "Environment_Allow (runNinja_kati rt config e) K =
   Environment_Allow (runNinja_kati rt config (Environment_Allow e K)) K"
  using Allow_AppendFromKati [of e _ K]
  by (simp add: runNinja_kati_def Environment_Allow_def)

lemma runNinja_Environment_filtered:
  assumes "\<not> Environment_IsEnvTrue (runNinja_kati rt config env) ''ALLOW_NINJA_ENV''"
  shows "runNinja_Environment rt config env =
     ninjaSets rt config (Environment_Allow (runNinja_kati rt config env)
        (ninjaEnvAllowlist @ BuildBrokenNinjaUsesEnvVars config))"
  using assms by (simp add: runNinja_Environment_def ninjaSets_def Let_def)

lemma keys_Set3:
  "fst ` set (Environment_Set (Environment_Set (Environment_Set e a va) b vb) d vd)
     \<subseteq> fst ` set e \<union> ({a, b, d} \<union> {})"
  by (auto simp: Environment_Set_def Environment_Unset_def)

lemma keys_Set4:
  "fst ` set (Environment_Set (Environment_Set (Environment_Set (Environment_Set e a va) b vb)
       c vc) d vd)
     \<subseteq> fst ` set e \<union> ({a, b, d} \<union> {c})"
  by (auto simp: Environment_Set_def Environment_Unset_def)

lemma keys_ninjaSets:
  "fst ` set (ninjaSets rt config e) \<subseteq> fst ` set e \<union> ninjaSetKeys config"
proof (cases "ninjaCommand config = NINJA_N2")
  case True
  have k: "ninjaSetKeys config =
      {''DIST_DIR'', ''SHELL'', ''SOONG_METRICS_AGGREGATION_DIR''} \<union> {''RUST_BACKTRACE''}"
    unfolding ninjaSetKeys_def using True by (simp only: if_True refl)
  have s: "ninjaSets rt config e =
      Environment_Set (Environment_Set (Environment_Set
        (Environment_Set e ''DIST_DIR'' (DistDir config))
        ''SHELL'' ''/bin/bash'') ''RUST_BACKTRACE'' ''1'') ''SOONG_METRICS_AGGREGATION_DIR''
          (ExecutionMetrics_SetDir rt
              (filepath_Join rt [OutDir config, ''soong'', ''metrics_aggregation'']))"
    unfolding ninjaSets_def Let_def using True by simp
  show ?thesis unfolding k s by (rule keys_Set4)
next
  case False
  have k: "ninjaSetKeys config =
      {''DIST_DIR'', ''SHELL'', ''SOONG_METRICS_AGGREGATION_DIR''} \<union> {}"
    unfolding ninjaSetKeys_def using False by (simp only: if_False)
  have s: "ninjaSets rt config e =
      Environment_Set (Environment_Set (Environment_Set e ''DIST_DIR'' (DistDir config))
        ''SHELL'' ''/bin/bash'') ''SOONG_METRICS_AGGREGATION_DIR''
          (ExecutionMetrics_SetDir rt
              (filepath_Join rt [OutDir config, ''soong'', ''metrics_aggregation'']))"
    unfolding ninjaSets_def Let_def using False by (cases "ninjaCommand config") simp_all
  show ?thesis unfolding k s by (rule keys_Set3)
qed

lemma Get_ninjaSets:
  "Environment_Get (ninjaSets rt config e) ''DIST_DIR'' = Some (DistDir config)"
  "Environment_Get (ninjaSets rt config e) ''SHELL'' = Some ''/bin/bash''"
  "Environment_Get (ninjaSets rt config e) ''SOONG_METRICS_AGGREGATION_DIR'' =
     Some (ExecutionMetrics_SetDir rt
              (filepath_Join rt [OutDir config, ''soong'', ''metrics_aggregation'']))"
  "Environment_Get (ninjaSets rt config e) ''RUST_BACKTRACE'' =
     (if ninjaCommand config = NINJA_N2 then Some ''1''
      else Environment_Get e ''RUST_BACKTRACE'')"
  unfolding ninjaSets_def Let_def
  by (cases "ninjaCommand config"; simp add: Get_Set)+

lemma RUST_allowed: "''RUST_BACKTRACE'' \<in> set ninjaEnvAllowlist"
  by (simp add: ninjaEnvAllowlist_def)

text \<open>
  Claim C10. When \<open>ALLOW_NINJA_ENV\<close> is not \<^verbatim>\<open>true\<close> in the command's environment
  (as it is after the Kati script), every variable of the environment handed to the
  executor is on the allowlist, in \<open>config.BuildBrokenNinjaUsesEnvVars()\<close>, or one of
  the variables \<open>runNinja\<close> sets itself (\<open>DIST_DIR\<close>, \<open>SHELL\<close>,
  \<open>SOONG_METRICS_AGGREGATION_DIR\<close>, and \<open>RUST_BACKTRACE\<close> for N2 only); and two
  starting environments that agree on the allowlisted variables give the executor the
  same environment, whatever the other variables hold. The variables set explicitly have
  the values of the source; \<open>RUST_BACKTRACE\<close> is forced to \<^verbatim>\<open>1\<close> for N2 and passes
  through unchanged otherwise.
\<close>

theorem runNinja_environment_restricted:
  assumes off: "\<not> Environment_IsEnvTrue (runNinja_kati rt config env) ''ALLOW_NINJA_ENV''"
  shows "fst ` set (runNinja_Environment rt config env)
           \<subseteq> ninjaAllowedKeys config \<union> ninjaSetKeys config
       \<and> (\<forall>env'. \<not> Environment_IsEnvTrue (runNinja_kati rt config env') ''ALLOW_NINJA_ENV''
               \<and> Environment_Allow env' (ninjaEnvAllowlist @ BuildBrokenNinjaUsesEnvVars config)
                 = Environment_Allow env (ninjaEnvAllowlist @ BuildBrokenNinjaUsesEnvVars config)
             \<longrightarrow> runNinja_Environment rt config env' = runNinja_Environment rt config env)
       \<and> Environment_Get (runNinja_Environment rt config env) ''DIST_DIR'' = Some (DistDir config)
       \<and> Environment_Get (runNinja_Environment rt config env) ''SHELL'' = Some ''/bin/bash''
       \<and> Environment_Get (runNinja_Environment rt config env) ''SOONG_METRICS_AGGREGATION_DIR''
           = Some (ExecutionMetrics_SetDir rt
                    (filepath_Join rt [OutDir config, ''soong'', ''metrics_aggregation'']))
       \<and> Environment_Get (runNinja_Environment rt config env) ''RUST_BACKTRACE''
           = (if ninjaCommand config = NINJA_N2 then Some ''1''
              else Environment_Get (runNinja_kati rt config env) ''RUST_BACKTRACE'')"
proof -
  let ?K = "ninjaEnvAllowlist @ BuildBrokenNinjaUsesEnvVars config"
  note eq = runNinja_Environment_filtered [OF off]
  have dom: "fst ` set (runNinja_Environment rt config env)
           \<subseteq> ninjaAllowedKeys config \<union> ninjaSetKeys config"
  proof -
    have "fst ` set (Environment_Allow (runNinja_kati rt config env) ?K) \<subseteq> set ?K"
      by (rule keys_Allow)
    then have a: "fst ` set (Environment_Allow (runNinja_kati rt config env) ?K)
        \<subseteq> ninjaAllowedKeys config"
      by (simp add: ninjaAllowedKeys_def)
    have "fst ` set (runNinja_Environment rt config env)
        \<subseteq> fst ` set (Environment_Allow (runNinja_kati rt config env) ?K)
            \<union> ninjaSetKeys config"
      unfolding eq by (rule keys_ninjaSets)
    with a show ?thesis by (meson Un_mono order_refl subset_trans)
  qed
  have ni: "runNinja_Environment rt config env' = runNinja_Environment rt config env"
    if off': "\<not> Environment_IsEnvTrue (runNinja_kati rt config env') ''ALLOW_NINJA_ENV''"
      and same: "Environment_Allow env' ?K = Environment_Allow env ?K" for env'
  proof -
    have "Environment_Allow (runNinja_kati rt config env') ?K =
          Environment_Allow (runNinja_kati rt config (Environment_Allow env' ?K)) ?K"
      by (rule Allow_kati)
    also have "\<dots> = Environment_Allow (runNinja_kati rt config (Environment_Allow env ?K)) ?K"
      by (simp only: same)
    also have "\<dots> = Environment_Allow (runNinja_kati rt config env) ?K"
      by (rule Allow_kati [symmetric])
    finally show ?thesis
      by (simp only: eq runNinja_Environment_filtered [OF off'])
  qed
  have rust: "Environment_Get (Environment_Allow (runNinja_kati rt config env) ?K)
        ''RUST_BACKTRACE'' = Environment_Get (runNinja_kati rt config env) ''RUST_BACKTRACE''"
    using RUST_allowed by (simp add: Get_Allow)
  show ?thesis
  proof (intro conjI allI impI)
    show "fst ` set (runNinja_Environment rt config env)
           \<subseteq> ninjaAllowedKeys config \<union> ninjaSetKeys config"
      by (rule dom)
  next
    fix env'
    assume "\<not> Environment_IsEnvTrue (runNinja_kati rt config env') ''ALLOW_NINJA_ENV''
               \<and> Environment_Allow env' ?K = Environment_Allow env ?K"
    then show "runNinja_Environment rt config env' = runNinja_Environment rt config env"
      by (elim conjE) (rule ni)
  qed (simp_all only: eq Get_ninjaSets rust)
qed


theorem runNinja_environment_restricted_witness:
  "runNinja_Environment exampleRuntime exampleConfig
       [(''PATH'', ''/usr/bin''), (''SECRET'', ''y'')]
     = runNinja_Environment exampleRuntime exampleConfig
       [(''PATH'', ''/usr/bin''), (''SECRET'', ''x'')]
   \<and> Environment_Get (runNinja_Environment exampleRuntime exampleConfig
       [(''PATH'', ''/usr/bin''), (''SECRET'', ''x'')]) ''SHELL'' = Some ''/bin/bash''"
proof -
  have kati: "runNinja_kati exampleRuntime exampleConfig e = e" for e
    by (simp add: runNinja_kati_def exampleConfig_def)
  have off: "\<not> Environment_IsEnvTrue
      (runNinja_kati exampleRuntime exampleConfig [(''PATH'', ''/usr/bin''), (''SECRET'', ''x'')])
      ''ALLOW_NINJA_ENV''"
    by (simp add: kati Environment_IsEnvTrue_def Environment_Get_def)
  have off': "\<not> Environment_IsEnvTrue
      (runNinja_kati exampleRuntime exampleConfig [(''PATH'', ''/usr/bin''), (''SECRET'', ''y'')])
      ''ALLOW_NINJA_ENV''"
    by (simp add: kati Environment_IsEnvTrue_def Environment_Get_def)
  have same: "Environment_Allow [(''PATH'', ''/usr/bin''), (''SECRET'', ''y'')]
        (ninjaEnvAllowlist @ BuildBrokenNinjaUsesEnvVars exampleConfig)
      = Environment_Allow [(''PATH'', ''/usr/bin''), (''SECRET'', ''x'')]
        (ninjaEnvAllowlist @ BuildBrokenNinjaUsesEnvVars exampleConfig)"
    by (simp add: Environment_Allow_def ninjaEnvAllowlist_def exampleConfig_def)
  note t = runNinja_environment_restricted [OF off]
  have a: "runNinja_Environment exampleRuntime exampleConfig
       [(''PATH'', ''/usr/bin''), (''SECRET'', ''y'')]
     = runNinja_Environment exampleRuntime exampleConfig
       [(''PATH'', ''/usr/bin''), (''SECRET'', ''x'')]"
    by (rule t [THEN conjunct2, THEN conjunct1, rule_format, OF conjI, OF off' same])
  have b: "Environment_Get (runNinja_Environment exampleRuntime exampleConfig
       [(''PATH'', ''/usr/bin''), (''SECRET'', ''x'')]) ''SHELL'' = Some ''/bin/bash''"
    by (rule t [THEN conjunct2, THEN conjunct2, THEN conjunct2, THEN conjunct1])
  from a b show ?thesis by (intro conjI)
qed

section \<open>Theorems: the bootstrap epoch\<close>

lemma files_withoutFiles:
  "files (withoutFiles fs D) p = (if p \<in> D then None else files fs p)"
  by (simp add: withoutFiles_def)

lemma fault_withoutFiles: "fault (withoutFiles fs D) = fault fs"
  by (simp add: withoutFiles_def)

lemma withoutFiles_empty: "withoutFiles fs {} = fs"
  by (simp add: withoutFiles_def)

lemma withoutFiles_twice: "withoutFiles (withoutFiles fs A) B = withoutFiles fs (A \<union> B)"
  by (cases fs) (auto simp: withoutFiles_def intro!: ext)

lemma withoutFiles_absent: "files fs p = None \<Longrightarrow> withoutFiles fs {p} = fs"
proof -
  assume a: "files fs p = None"
  have "(\<lambda>q. if q \<in> {p} then None else files fs q) = files fs"
    using a by (auto intro!: ext)
  then show ?thesis by (simp add: withoutFiles_def)
qed

lemma os_Remove_without: "os_Remove fs p = withoutFiles fs {p}"
proof -
  have "(files fs)(p := None) = (\<lambda>q. if q \<in> {p} then None else files fs q)"
    by (auto intro!: ext)
  then show ?thesis by (simp add: os_Remove_def withoutFiles_def)
qed

lemma fileExists_cases:
  "fileExists fs p =
     (case fault fs SysStat p of
        Some ErrNotExist \<Rightarrow> (False, None)
      | Some e \<Rightarrow> (False, Some e)
      | None \<Rightarrow> (files fs p \<noteq> None, None))"
  by (simp add: fileExists_def os_Stat_def split: option.splits error.splits)

lemma removeShardFile_without:
  "removeShardFile fs file =
     withoutFiles fs (if fault fs SysStat file = None then {file} else {})"
proof (cases "fault fs SysStat file")
  case None
  show ?thesis
  proof (cases "files fs file")
    case N: None
    with None show ?thesis
      by (simp add: removeShardFile_def fileExists_cases withoutFiles_absent)
  next
    case (Some f)
    with None show ?thesis
      by (simp add: removeShardFile_def fileExists_cases os_Remove_without)
  qed
next
  case (Some e)
  then show ?thesis
    by (cases e) (simp_all add: removeShardFile_def fileExists_cases withoutFiles_empty)
qed

lemma foldl_removeShardFile:
  "foldl removeShardFile (withoutFiles fs A) xs =
     withoutFiles fs (A \<union> {f \<in> set xs. fault fs SysStat f = None})"
proof (induction xs arbitrary: A)
  case Nil
  show ?case by simp
next
  case (Cons x xs)
  have "removeShardFile (withoutFiles fs A) x =
        withoutFiles fs (A \<union> (if fault fs SysStat x = None then {x} else {}))"
    by (simp only: removeShardFile_without fault_withoutFiles withoutFiles_twice)
  then have "foldl removeShardFile (withoutFiles fs A) (x # xs) =
        withoutFiles fs ((A \<union> (if fault fs SysStat x = None then {x} else {}))
           \<union> {f \<in> set xs. fault fs SysStat f = None})"
    by (simp only: foldl_Cons Cons.IH)
  moreover have "(A \<union> (if fault fs SysStat x = None then {x} else {}))
           \<union> {f \<in> set xs. fault fs SysStat f = None}
        = A \<union> {f \<in> set (x # xs). fault fs SysStat f = None}"
    by auto
  ultimately show ?case by simp
qed

lemma cleanup_absent:
  assumes "fileExists fs (epochPath rt config) = (False, None)"
  shows "bootstrapEpochCleanup rt config fs =
     writeEmptyFile rt (withoutFiles fs (cleanedFiles rt config fs)) (epochPath rt config)"
proof -
  let ?n = "SoongNinjaFile config"
  have "os_Remove (os_Remove (os_Remove
          (foldl removeShardFile (os_Remove fs ?n) (GetNinjaShardFiles rt ?n))
          (?n @ ''.globs'')) (?n @ ''.globs_time'')) (?n @ ''.glob_results'')
        = withoutFiles fs ((((({?n} \<union> {f \<in> set (GetNinjaShardFiles rt ?n).
              fault fs SysStat f = None}) \<union> {?n @ ''.globs''}) \<union> {?n @ ''.globs_time''})
              \<union> {?n @ ''.glob_results''}))"
    by (simp only: os_Remove_without foldl_removeShardFile withoutFiles_twice)
  moreover have "(((({?n} \<union> {f \<in> set (GetNinjaShardFiles rt ?n).
              fault fs SysStat f = None}) \<union> {?n @ ''.globs''}) \<union> {?n @ ''.globs_time''})
              \<union> {?n @ ''.glob_results''}) = cleanedFiles rt config fs"
    unfolding cleanedFiles_def by blast
  ultimately show ?thesis
    using assms by (simp add: bootstrapEpochCleanup_def Let_def)
qed


lemma fileExists_without_absent:
  "fileExists fs p = (False, None) \<Longrightarrow> fileExists (withoutFiles fs D) p = (False, None)"
  by (auto simp: fileExists_cases files_withoutFiles fault_withoutFiles
           split: option.splits error.splits)

lemma cleanedFiles_fault:
  "fault fs' = fault fs \<Longrightarrow> cleanedFiles rt config fs' = cleanedFiles rt config fs"
  by (simp add: cleanedFiles_def)

lemma fault_putFile: "fault (putFile rt fs p d) = fault fs"
  by (simp add: putFile_def)

lemma files_putFile:
  "files (putFile rt fs p d) q =
     (if q = p then Some \<lparr>data = d, modTime = time_Now rt\<rparr> else files fs q)"
  by (simp add: putFile_def)

lemma writeEmptyFile_Fatal: "writeEmptyFile rt fs p = (Fatal m, fs') \<Longrightarrow> fs' = fs"
  by (auto simp: writeEmptyFile_def os_WriteFile_def
           split: option.splits sum.splits prod.splits bool.splits if_splits)

lemma writeEmptyFile_Ok:
  "fileExists fs p = (False, None) \<Longrightarrow> writeEmptyFile rt fs p = (Ok, fs') \<Longrightarrow>
     fs' = putFile rt fs p [] \<and> fault fs SysMkdirAll (filepath_Dir rt p) = None
       \<and> fault fs SysWrite p = None"
  by (auto simp: writeEmptyFile_def os_MkdirAll_def os_WriteFile_def split: option.splits)

lemma writeEmptyFile_write:
  "fault fs SysMkdirAll (filepath_Dir rt p) = None \<Longrightarrow> fault fs SysWrite p = None \<Longrightarrow>
   fileExists fs p = (False, None) \<Longrightarrow> writeEmptyFile rt fs p = (Ok, putFile rt fs p [])"
  by (simp add: writeEmptyFile_def os_MkdirAll_def os_WriteFile_def)

lemma putFile_again:
  "putFile rt (withoutFiles (putFile rt (withoutFiles fs D) p d) D) p d =
   putFile rt (withoutFiles fs D) p d"
  by (cases fs) (auto simp: putFile_def withoutFiles_def intro!: ext)

lemma fileExists_putFile:
  "fileExists fs p = (False, None) \<Longrightarrow>
     fileExists (putFile rt fs p d) p = (True, None)
     \<or> fileExists (putFile rt fs p d) p = (False, None)"
  by (auto simp: fileExists_cases putFile_def split: option.splits error.splits)

lemma cleanup_err:
  "fileExists fs (epochPath rt config) = (b, Some e) \<Longrightarrow>
   bootstrapEpochCleanup rt config fs =
     (Fatal ''failed to check if bootstrap epoch file exists'', fs)"
  by (cases b) (simp_all add: bootstrapEpochCleanup_def)

lemma cleanup_exists:
  "fileExists fs (epochPath rt config) = (True, None) \<Longrightarrow>
   bootstrapEpochCleanup rt config fs = (Ok, fs)"
  by (simp add: bootstrapEpochCleanup_def)

lemma cleanup_again:
  "bootstrapEpochCleanup rt config (snd (bootstrapEpochCleanup rt config fs)) =
   bootstrapEpochCleanup rt config fs"
proof -
  let ?ep = "epochPath rt config"
  let ?D = "cleanedFiles rt config fs"
  let ?fs1 = "withoutFiles fs ?D"
  obtain b eo where fe: "fileExists fs ?ep = (b, eo)"
    by (cases "fileExists fs ?ep")
  show ?thesis
  proof (cases eo)
    case (Some e)
    with fe have "bootstrapEpochCleanup rt config fs =
        (Fatal ''failed to check if bootstrap epoch file exists'', fs)"
      by (simp add: cleanup_err)
    then show ?thesis by simp
  next
    case None
    show ?thesis
    proof (cases b)
      case True
      with fe None have "bootstrapEpochCleanup rt config fs = (Ok, fs)"
        by (simp add: cleanup_exists)
      then show ?thesis by simp
    next
      case False
      with fe None have fe0: "fileExists fs ?ep = (False, None)" by simp
      have R: "bootstrapEpochCleanup rt config fs = writeEmptyFile rt ?fs1 ?ep"
        by (rule cleanup_absent [OF fe0])
      have fe1: "fileExists ?fs1 ?ep = (False, None)"
        by (rule fileExists_without_absent [OF fe0])
      have D1: "cleanedFiles rt config ?fs1 = ?D"
        by (rule cleanedFiles_fault) (rule fault_withoutFiles)
      obtain oc fs' where w: "writeEmptyFile rt ?fs1 ?ep = (oc, fs')"
        by (cases "writeEmptyFile rt ?fs1 ?ep")
      show ?thesis
      proof (cases oc)
        case (Fatal m)
        with w have "fs' = ?fs1" by (simp add: writeEmptyFile_Fatal)
        moreover have "bootstrapEpochCleanup rt config ?fs1 = writeEmptyFile rt ?fs1 ?ep"
          using cleanup_absent [OF fe1] by (simp add: D1 withoutFiles_twice)
        ultimately show ?thesis by (simp add: R w)
      next
        case Ok
        with w have wo: "writeEmptyFile rt ?fs1 ?ep = (Ok, fs')" by simp
        note k = writeEmptyFile_Ok [OF fe1 wo]
        from k have fs': "fs' = putFile rt ?fs1 ?ep []" by simp
        from k have mk: "fault ?fs1 SysMkdirAll (filepath_Dir rt ?ep) = None" by simp
        from k have wr: "fault ?fs1 SysWrite ?ep = None" by simp
        have ff: "fault fs' = fault fs"
          by (simp add: fs' fault_putFile fault_withoutFiles)
        have D': "cleanedFiles rt config fs' = ?D"
          by (rule cleanedFiles_fault) (rule ff)
        from fileExists_putFile [OF fe1, of rt "[]"]
        have "fileExists fs' ?ep = (True, None) \<or> fileExists fs' ?ep = (False, None)"
          by (simp add: fs')
        then have "bootstrapEpochCleanup rt config fs' = (Ok, fs')"
        proof
          assume "fileExists fs' ?ep = (True, None)"
          then show ?thesis by (rule cleanup_exists)
        next
          assume a: "fileExists fs' ?ep = (False, None)"
          have c: "bootstrapEpochCleanup rt config fs' =
                writeEmptyFile rt (withoutFiles fs' ?D) ?ep"
            using cleanup_absent [OF a] by (simp add: D')
          have a': "fileExists (withoutFiles fs' ?D) ?ep = (False, None)"
            by (rule fileExists_without_absent [OF a])
          have mk': "fault (withoutFiles fs' ?D) SysMkdirAll (filepath_Dir rt ?ep) = None"
            using mk by (simp add: fault_withoutFiles ff)
          have wr': "fault (withoutFiles fs' ?D) SysWrite ?ep = None"
            using wr by (simp add: fault_withoutFiles ff)
          have "writeEmptyFile rt (withoutFiles fs' ?D) ?ep =
                (Ok, putFile rt (withoutFiles fs' ?D) ?ep [])"
            by (rule writeEmptyFile_write [OF mk' wr' a'])
          also have "putFile rt (withoutFiles fs' ?D) ?ep [] = fs'"
            unfolding fs' by (rule putFile_again)
          finally show ?thesis by (simp add: c)
        qed
        then show ?thesis by (simp add: R wo)
      qed
    qed
  qed
qed

lemma cleanup_effect:
  assumes fe0: "fileExists fs (epochPath rt config) = (False, None)"
  shows "(\<forall>p. p \<noteq> epochPath rt config \<longrightarrow>
            files (snd (bootstrapEpochCleanup rt config fs)) p =
              (if p \<in> cleanedFiles rt config fs then None else files fs p))
       \<and> fault (snd (bootstrapEpochCleanup rt config fs)) = fault fs
       \<and> (fst (bootstrapEpochCleanup rt config fs) = Ok \<longrightarrow>
            files (snd (bootstrapEpochCleanup rt config fs)) (epochPath rt config) =
              Some \<lparr>data = [], modTime = time_Now rt\<rparr>)"
proof -
  let ?ep = "epochPath rt config"
  let ?D = "cleanedFiles rt config fs"
  let ?fs1 = "withoutFiles fs ?D"
  have R: "bootstrapEpochCleanup rt config fs = writeEmptyFile rt ?fs1 ?ep"
    by (rule cleanup_absent [OF fe0])
  have fe1: "fileExists ?fs1 ?ep = (False, None)"
    by (rule fileExists_without_absent [OF fe0])
  obtain oc fs' where w: "writeEmptyFile rt ?fs1 ?ep = (oc, fs')"
    by (cases "writeEmptyFile rt ?fs1 ?ep")
  show ?thesis
  proof (cases oc)
    case (Fatal m)
    with w have "fs' = ?fs1" by (simp add: writeEmptyFile_Fatal)
    with Fatal show ?thesis
      by (simp add: R w files_withoutFiles fault_withoutFiles)
  next
    case Ok
    with w have wo: "writeEmptyFile rt ?fs1 ?ep = (Ok, fs')" by simp
    from writeEmptyFile_Ok [OF fe1 wo] have "fs' = putFile rt ?fs1 ?ep []" by simp
    then show ?thesis
      by (simp add: R wo files_putFile fault_putFile files_withoutFiles fault_withoutFiles)
  qed
qed


text \<open>
  Claim C7. When the epoch marker exists, \<open>bootstrapEpochCleanup\<close> returns the file
  system as it found it. When the marker is absent, every path of \<open>cleanedFiles\<close> (the
  Soong ninja file, its shard files, the \<^verbatim>\<open>.globs\<close>, \<^verbatim>\<open>.globs_time\<close> and
  \<^verbatim>\<open>.glob_results\<close> companions) is gone afterwards, every other path but the marker is
  untouched, and, unless writing the marker ends the build with \<open>Fatalf\<close>, the marker
  is there as an empty file. Running the cleanup a second time, on the file system the
  first run left, gives the outcome and the file system of the first run.
\<close>

theorem bootstrapEpochCleanup_idempotent:
  "(fileExists fs (epochPath rt config) = (True, None) \<longrightarrow>
      bootstrapEpochCleanup rt config fs = (Ok, fs))
   \<and> (fileExists fs (epochPath rt config) = (False, None) \<longrightarrow>
        (\<forall>p. p \<noteq> epochPath rt config \<longrightarrow>
            files (snd (bootstrapEpochCleanup rt config fs)) p =
              (if p \<in> cleanedFiles rt config fs then None else files fs p))
        \<and> fault (snd (bootstrapEpochCleanup rt config fs)) = fault fs
        \<and> (fst (bootstrapEpochCleanup rt config fs) = Ok \<longrightarrow>
            files (snd (bootstrapEpochCleanup rt config fs)) (epochPath rt config) =
              Some \<lparr>data = [], modTime = time_Now rt\<rparr>))
   \<and> bootstrapEpochCleanup rt config (snd (bootstrapEpochCleanup rt config fs)) =
       bootstrapEpochCleanup rt config fs"
proof (intro conjI)
  show "fileExists fs (epochPath rt config) = (True, None) \<longrightarrow>
      bootstrapEpochCleanup rt config fs = (Ok, fs)"
    by (rule impI) (rule cleanup_exists)
next
  show "fileExists fs (epochPath rt config) = (False, None) \<longrightarrow>
        (\<forall>p. p \<noteq> epochPath rt config \<longrightarrow>
            files (snd (bootstrapEpochCleanup rt config fs)) p =
              (if p \<in> cleanedFiles rt config fs then None else files fs p))
        \<and> fault (snd (bootstrapEpochCleanup rt config fs)) = fault fs
        \<and> (fst (bootstrapEpochCleanup rt config fs) = Ok \<longrightarrow>
            files (snd (bootstrapEpochCleanup rt config fs)) (epochPath rt config) =
              Some \<lparr>data = [], modTime = time_Now rt\<rparr>)"
    by (rule impI) (rule cleanup_effect)
next
  show "bootstrapEpochCleanup rt config (snd (bootstrapEpochCleanup rt config fs)) =
       bootstrapEpochCleanup rt config fs"
    by (rule cleanup_again)
qed

lemma example_epochPath:
  "epochPath exampleRuntime exampleConfig = ''out/soong/.soong.bootstrap.epoch.1''"
  by code_simp

theorem bootstrapEpochCleanup_idempotent_witness:
  "bootstrapEpochCleanup exampleRuntime exampleConfig markedFS = (Ok, markedFS)
   \<and> files (snd (bootstrapEpochCleanup exampleRuntime exampleConfig exampleFS))
       ''out/soong/build.ninja.globs'' = None
   \<and> files (snd (bootstrapEpochCleanup exampleRuntime exampleConfig exampleFS)) ''src''
       = Some \<lparr>data = [], modTime = 200\<rparr>
   \<and> bootstrapEpochCleanup exampleRuntime exampleConfig
       (snd (bootstrapEpochCleanup exampleRuntime exampleConfig exampleFS))
       = bootstrapEpochCleanup exampleRuntime exampleConfig exampleFS"
proof -
  have m: "fileExists markedFS (epochPath exampleRuntime exampleConfig) = (True, None)"
    by (simp add: example_epochPath fileExists_cases markedFS_def noFault_def)
  have e: "fileExists exampleFS (epochPath exampleRuntime exampleConfig) = (False, None)"
    by (simp add: example_epochPath fileExists_cases exampleFS_def noFault_def)
  have c: "''out/soong/build.ninja.globs'' \<in> cleanedFiles exampleRuntime exampleConfig exampleFS"
    by (simp add: cleanedFiles_def exampleConfig_def)
  have s: "''src'' \<notin> cleanedFiles exampleRuntime exampleConfig exampleFS"
    by (simp add: cleanedFiles_def exampleConfig_def exampleRuntime_def)
  have ne: "''out/soong/build.ninja.globs'' \<noteq> epochPath exampleRuntime exampleConfig"
    "''src'' \<noteq> epochPath exampleRuntime exampleConfig"
    by (simp_all add: example_epochPath)
  note t1 = bootstrapEpochCleanup_idempotent [of markedFS exampleRuntime exampleConfig]
  note t2 = bootstrapEpochCleanup_idempotent [of exampleFS exampleRuntime exampleConfig]
  note eff = t2 [THEN conjunct2, THEN conjunct1, rule_format, OF e, THEN conjunct1, rule_format]
  have a: "bootstrapEpochCleanup exampleRuntime exampleConfig markedFS = (Ok, markedFS)"
    by (rule t1 [THEN conjunct1, rule_format, OF m])
  have b: "files (snd (bootstrapEpochCleanup exampleRuntime exampleConfig exampleFS))
       ''out/soong/build.ninja.globs'' = None"
    using eff [OF ne(1)] c by simp
  have d: "files (snd (bootstrapEpochCleanup exampleRuntime exampleConfig exampleFS)) ''src''
       = Some \<lparr>data = [], modTime = 200\<rparr>"
    using eff [OF ne(2)] s by (simp add: exampleFS_def)
  have f: "bootstrapEpochCleanup exampleRuntime exampleConfig
       (snd (bootstrapEpochCleanup exampleRuntime exampleConfig exampleFS))
       = bootstrapEpochCleanup exampleRuntime exampleConfig exampleFS"
    by (rule t2 [THEN conjunct2, THEN conjunct2])
  from a b d f show ?thesis by (intro conjI)
qed

section \<open>Theorems: checkGlobs\<close>

lemma checkCachedGlob_flag:
  "hasChangedGlobs (checkCachedGlob rt fs t early g st) =
     (hasChangedGlobs st \<or> globChanged rt fs t g)"
  by (auto simp: checkCachedGlob_def globChanged_def Let_def split: prod.splits sum.splits)

lemma checkCachedGlob_errors:
  "globReadable rt fs t g \<Longrightarrow>
     errorsChan (checkCachedGlob rt fs t early g st) = errorsChan st"
  by (auto simp: checkCachedGlob_def globReadable_def Let_def split: prod.splits sum.splits)

lemma set_pick:
  "k < length xs \<Longrightarrow> set xs = insert (xs ! k) (set (take k xs @ drop (Suc k) xs))"
proof -
  assume "k < length xs"
  then have "xs = take k xs @ xs ! k # drop (Suc k) xs"
    by (rule id_take_nth_drop)
  then have "set xs = set (take k xs @ xs ! k # drop (Suc k) xs)"
    by simp
  then show ?thesis by simp
qed

lemma runWorkers_flag:
  "hasChangedGlobs (runWorkers (checkCachedGlob rt fs t) sched gs st) =
     (hasChangedGlobs st \<or> (\<exists>g\<in>set gs. globChanged rt fs t g))"
proof (induction "checkCachedGlob rt fs t" sched gs st rule: runWorkers.induct)
  case (1 sched st)
  show ?case by simp
next
  case (2 g gs st)
  then show ?case by (simp add: checkCachedGlob_flag)
next
  case (3 i early sched g gs st)
  let ?xs = "g # gs"
  let ?k = "i mod length ?xs"
  have k: "?k < length ?xs" by simp
  have s: "set ?xs = insert (?xs ! ?k) (set (take ?k ?xs @ drop (Suc ?k) ?xs))"
    by (rule set_pick [OF k])
  have "hasChangedGlobs (runWorkers (checkCachedGlob rt fs t) ((i, early) # sched) ?xs st) =
        (hasChangedGlobs (checkCachedGlob rt fs t early (?xs ! ?k) st)
          \<or> (\<exists>g\<in>set (take ?k ?xs @ drop (Suc ?k) ?xs). globChanged rt fs t g))"
    using 3 by simp
  also have "\<dots> = (hasChangedGlobs st \<or> (\<exists>g\<in>insert (?xs ! ?k)
        (set (take ?k ?xs @ drop (Suc ?k) ?xs)). globChanged rt fs t g))"
    by (simp only: checkCachedGlob_flag) blast
  finally show ?case by (simp only: s [symmetric])
qed

lemma runWorkers_errors:
  "\<forall>g\<in>set gs. globReadable rt fs t g \<Longrightarrow>
     errorsChan (runWorkers (checkCachedGlob rt fs t) sched gs st) = errorsChan st"
proof (induction "checkCachedGlob rt fs t" sched gs st rule: runWorkers.induct)
  case (1 sched st)
  show ?case by simp
next
  case (2 g gs st)
  then show ?case by (simp add: checkCachedGlob_errors)
next
  case (3 i early sched g gs st)
  let ?xs = "g # gs"
  let ?k = "i mod length ?xs"
  have k: "?k < length ?xs" by simp
  have s: "set ?xs = insert (?xs ! ?k) (set (take ?k ?xs @ drop (Suc ?k) ?xs))"
    by (rule set_pick [OF k])
  from 3(2) s have a: "globReadable rt fs t (?xs ! ?k)"
    and b: "\<forall>g\<in>set (take ?k ?xs @ drop (Suc ?k) ?xs). globReadable rt fs t g"
    by blast+
  have "errorsChan (runWorkers (checkCachedGlob rt fs t) ((i, early) # sched) ?xs st) =
        errorsChan (checkCachedGlob rt fs t early (?xs ! ?k) st)"
    using 3(1) [OF b] by simp
  then show ?case by (simp only: checkCachedGlob_errors [OF a])
qed

lemma checkGlobs_no_cache:
  assumes "os_Open fs (finalOutFile @ ''.globs'') = Inl ErrNotExist"
    and "os_MkdirAll fs (filepath_Dir rt finalOutFile) = None"
    and "fault fs SysCreate (finalOutFile @ ''.glob_results'') = None"
    and "fault fs SysClose (finalOutFile @ ''.glob_results'') = None"
  shows "checkGlobs rt fs finalOutFile =
           (None, putFile rt fs (finalOutFile @ ''.glob_results'') [])"
  using assms by (simp add: checkGlobs_def os_Create_def file_Close_def putFile_def)

lemma checkGlobs_cache:
  assumes "os_Open fs (finalOutFile @ ''.globs'') = Inr globsFile"
    and "os_ReadFile fs (finalOutFile @ ''.globs_time'') = Inr globsTimeBytes"
    and "strconv_ParseInt rt (strings_TrimSpace rt globsTimeBytes) = Inr globsTimeMicros"
    and "json_Decode rt (data globsFile) = (cached, None)"
    and "\<forall>g\<in>set cached. globReadable rt fs globsTimeMicros g"
    and "fault fs SysWrite (finalOutFile @ ''.globs_time'') = None"
    and "fault fs SysWrite (finalOutFile @ ''.glob_results'') = None"
  shows "checkGlobs rt fs finalOutFile =
     (None,
      if (\<exists>g\<in>set cached. globChanged rt fs globsTimeMicros g)
      then putFile rt
             (putFile rt fs (finalOutFile @ ''.globs_time'') (Itoa (time_Now rt) @ [CHR 0x0A]))
             (finalOutFile @ ''.glob_results'') (Itoa (time_Now rt) @ [CHR 0x0A])
      else putFile rt fs (finalOutFile @ ''.globs_time'') (Itoa (time_Now rt) @ [CHR 0x0A]))"
proof -
  let ?st = "runWorkers (checkCachedGlob rt fs globsTimeMicros) (goSchedule rt finalOutFile)
               cached \<lparr>hasChangedGlobs = False, changedGlobName = [], errorsChan = []\<rparr>"
  have e: "errorsChan ?st = []"
    using runWorkers_errors [OF assms(5)] by simp
  have f: "hasChangedGlobs ?st = (\<exists>g\<in>set cached. globChanged rt fs globsTimeMicros g)"
    by (simp add: runWorkers_flag)
  have w: "fault (putFile rt fs (finalOutFile @ ''.globs_time'') d) SysWrite
             (finalOutFile @ ''.glob_results'') = None" for d
    using assms(7) by (simp add: putFile_def)
  show ?thesis
    using assms(1-4,6) e f w
    by (simp add: checkGlobs_def Let_def os_WriteFile_def)
qed


lemma Itoa_300: "Itoa 300 = ''300''"
  by code_simp

lemma example_open:
  "os_Open exampleFS (''out/soong/build.ninja'' @ ''.globs'') = Inr \<lparr>data = ''G'', modTime = 50\<rparr>"
  by (simp add: os_Open_def exampleFS_def noFault_def)

lemma example_read:
  "os_ReadFile exampleFS (''out/soong/build.ninja'' @ ''.globs_time'') = Inr (''100'' @ [CHR 0x0A])"
  by (simp add: os_ReadFile_def exampleFS_def noFault_def)

lemma example_parse:
  "strconv_ParseInt exampleRuntime (strings_TrimSpace exampleRuntime (''100'' @ [CHR 0x0A]))
     = Inr 100"
  by (simp add: exampleRuntime_def)

lemma example_decode:
  "json_Decode exampleRuntime (data \<lparr>data = ''G'', modTime = 50\<rparr>) = ([exampleGlob], None)"
  by (simp add: exampleRuntime_def)

lemma example_newDep: "hasNewDep exampleFS 100 (Deps exampleGlob) = (True, [])"
  by (simp add: exampleGlob_def os_Stat_def exampleFS_def noFault_def)

lemma example_readable: "\<forall>g\<in>set [exampleGlob]. globReadable exampleRuntime exampleFS 100 g"
  by (simp add: globReadable_def example_newDep exampleRuntime_def)

lemma example_changed: "\<exists>g\<in>set [exampleGlob]. globChanged exampleRuntime exampleFS 100 g"
  by (simp add: globChanged_def example_newDep) (simp add: exampleRuntime_def exampleGlob_def)


lemma unchanged_parse:
  "strconv_ParseInt unchangedRuntime (strings_TrimSpace unchangedRuntime (''100'' @ [CHR 0x0A]))
     = Inr 100"
  by (simp add: unchangedRuntime_def exampleRuntime_def)

lemma unchanged_decode:
  "json_Decode unchangedRuntime (data \<lparr>data = ''G'', modTime = 50\<rparr>) = ([exampleGlob], None)"
  by (simp add: unchangedRuntime_def exampleRuntime_def)

lemma unchanged_readable:
  "\<forall>g\<in>set [exampleGlob]. globReadable unchangedRuntime exampleFS 100 g"
  by (simp add: globReadable_def example_newDep unchangedRuntime_def)

lemma unchanged_not_changed:
  "\<not> (\<exists>g\<in>set [exampleGlob]. globChanged unchangedRuntime exampleFS 100 g)"
  by (simp add: globChanged_def example_newDep unchangedRuntime_def)

lemma example_no_write_fault:
  "fault exampleFS SysWrite p = None"
  by (simp add: exampleFS_def noFault_def)

lemma example_checkGlobs:
  "checkGlobs exampleRuntime exampleFS ''out/soong/build.ninja'' =
     (None,
      putFile exampleRuntime
        (putFile exampleRuntime exampleFS (''out/soong/build.ninja'' @ ''.globs_time'')
           (Itoa (time_Now exampleRuntime) @ [CHR 0x0A]))
        (''out/soong/build.ninja'' @ ''.glob_results'')
        (Itoa (time_Now exampleRuntime) @ [CHR 0x0A]))"
  using checkGlobs_cache [OF example_open example_read example_parse example_decode
      example_readable example_no_write_fault example_no_write_fault] example_changed
  by (simp only: if_True)

lemma unchanged_checkGlobs:
  "checkGlobs unchangedRuntime exampleFS ''out/soong/build.ninja'' =
     (None,
      putFile unchangedRuntime exampleFS (''out/soong/build.ninja'' @ ''.globs_time'')
           (Itoa (time_Now unchangedRuntime) @ [CHR 0x0A]))"
  using checkGlobs_cache [OF example_open example_read unchanged_parse unchanged_decode
      unchanged_readable example_no_write_fault example_no_write_fault] unchanged_not_changed
  by (simp only: if_False)

text \<open>
  Claim C1, as amended. If the \<^verbatim>\<open>.globs\<close> cache of the target does not exist and the
  parent directory and the file can be created, \<open>checkGlobs\<close> returns no error and
  leaves an empty \<^verbatim>\<open>.glob_results\<close> file. If the cache exists, the cache and the
  recorded time are read, parsed and decoded without error, no \<^verbatim>\<open>os.Stat\<close> of a
  dependency and no rerun of a glob fails, and \<^verbatim>\<open>.globs_time\<close> and
  \<^verbatim>\<open>.glob_results\<close> can be written, then \<open>checkGlobs\<close> returns no error and has
  rewritten \<^verbatim>\<open>.glob_results\<close> (with the start time of the check) if and only if some
  cached glob with a dependency that is missing or newer than the recorded time reruns to
  a match list different from the cached one; otherwise the file is left as it was. This
  holds for every schedule of the workers.
\<close>

theorem checkGlobs_rewrites_iff_changed:
  "(os_Open fs (finalOutFile @ ''.globs'') = Inl ErrNotExist
      \<and> os_MkdirAll fs (filepath_Dir rt finalOutFile) = None
      \<and> fault fs SysCreate (finalOutFile @ ''.glob_results'') = None
      \<and> fault fs SysClose (finalOutFile @ ''.glob_results'') = None
    \<longrightarrow> fst (checkGlobs rt fs finalOutFile) = None
        \<and> files (snd (checkGlobs rt fs finalOutFile)) (finalOutFile @ ''.glob_results'')
            = Some \<lparr>data = [], modTime = time_Now rt\<rparr>)
   \<and> (\<forall>globsFile globsTimeBytes globsTimeMicros cached.
        os_Open fs (finalOutFile @ ''.globs'') = Inr globsFile
        \<and> os_ReadFile fs (finalOutFile @ ''.globs_time'') = Inr globsTimeBytes
        \<and> strconv_ParseInt rt (strings_TrimSpace rt globsTimeBytes) = Inr globsTimeMicros
        \<and> json_Decode rt (data globsFile) = (cached, None)
        \<and> (\<forall>g\<in>set cached. globReadable rt fs globsTimeMicros g)
        \<and> fault fs SysWrite (finalOutFile @ ''.globs_time'') = None
        \<and> fault fs SysWrite (finalOutFile @ ''.glob_results'') = None
      \<longrightarrow> fst (checkGlobs rt fs finalOutFile) = None
          \<and> files (snd (checkGlobs rt fs finalOutFile)) (finalOutFile @ ''.glob_results'')
              = (if \<exists>g\<in>set cached. globChanged rt fs globsTimeMicros g
                 then Some \<lparr>data = Itoa (time_Now rt) @ [CHR 0x0A], modTime = time_Now rt\<rparr>
                 else files fs (finalOutFile @ ''.glob_results'')))"
proof (intro conjI allI impI)
  assume a: "os_Open fs (finalOutFile @ ''.globs'') = Inl ErrNotExist
      \<and> os_MkdirAll fs (filepath_Dir rt finalOutFile) = None
      \<and> fault fs SysCreate (finalOutFile @ ''.glob_results'') = None
      \<and> fault fs SysClose (finalOutFile @ ''.glob_results'') = None"
  then have r: "checkGlobs rt fs finalOutFile =
           (None, putFile rt fs (finalOutFile @ ''.glob_results'') [])"
    by (elim conjE) (rule checkGlobs_no_cache)
  show "fst (checkGlobs rt fs finalOutFile) = None"
    by (simp add: r)
  show "files (snd (checkGlobs rt fs finalOutFile)) (finalOutFile @ ''.glob_results'')
            = Some \<lparr>data = [], modTime = time_Now rt\<rparr>"
    by (simp add: r putFile_def)
next
  fix globsFile globsTimeBytes globsTimeMicros cached
  assume a: "os_Open fs (finalOutFile @ ''.globs'') = Inr globsFile
        \<and> os_ReadFile fs (finalOutFile @ ''.globs_time'') = Inr globsTimeBytes
        \<and> strconv_ParseInt rt (strings_TrimSpace rt globsTimeBytes) = Inr globsTimeMicros
        \<and> json_Decode rt (data globsFile) = (cached, None)
        \<and> (\<forall>g\<in>set cached. globReadable rt fs globsTimeMicros g)
        \<and> fault fs SysWrite (finalOutFile @ ''.globs_time'') = None
        \<and> fault fs SysWrite (finalOutFile @ ''.glob_results'') = None"
  then have r: "checkGlobs rt fs finalOutFile =
     (None,
      if (\<exists>g\<in>set cached. globChanged rt fs globsTimeMicros g)
      then putFile rt
             (putFile rt fs (finalOutFile @ ''.globs_time'') (Itoa (time_Now rt) @ [CHR 0x0A]))
             (finalOutFile @ ''.glob_results'') (Itoa (time_Now rt) @ [CHR 0x0A])
      else putFile rt fs (finalOutFile @ ''.globs_time'') (Itoa (time_Now rt) @ [CHR 0x0A]))"
    by (elim conjE) (rule checkGlobs_cache)
  show "fst (checkGlobs rt fs finalOutFile) = None"
    by (simp add: r)
  show "files (snd (checkGlobs rt fs finalOutFile)) (finalOutFile @ ''.glob_results'')
              = (if \<exists>g\<in>set cached. globChanged rt fs globsTimeMicros g
                 then Some \<lparr>data = Itoa (time_Now rt) @ [CHR 0x0A], modTime = time_Now rt\<rparr>
                 else files fs (finalOutFile @ ''.glob_results''))"
    by (simp add: r putFile_def)
qed

theorem checkGlobs_rewrites_iff_changed_witness:
  "fst (checkGlobs exampleRuntime freshFS ''out/soong/build.ninja'') = None
   \<and> files (snd (checkGlobs exampleRuntime freshFS ''out/soong/build.ninja''))
        ''out/soong/build.ninja.glob_results'' = Some \<lparr>data = [], modTime = 300\<rparr>
   \<and> fst (checkGlobs exampleRuntime exampleFS ''out/soong/build.ninja'') = None
   \<and> files (snd (checkGlobs exampleRuntime exampleFS ''out/soong/build.ninja''))
        ''out/soong/build.ninja.glob_results''
        = Some \<lparr>data = ''300'' @ [CHR 0x0A], modTime = 300\<rparr>"
proof -
  have h1: "os_Open freshFS (''out/soong/build.ninja'' @ ''.globs'') = Inl ErrNotExist
      \<and> os_MkdirAll freshFS (filepath_Dir exampleRuntime ''out/soong/build.ninja'') = None
      \<and> fault freshFS SysCreate (''out/soong/build.ninja'' @ ''.glob_results'') = None
      \<and> fault freshFS SysClose (''out/soong/build.ninja'' @ ''.glob_results'') = None"
    by (simp add: os_Open_def os_MkdirAll_def freshFS_def noFault_def)
  have h2: "os_Open exampleFS (''out/soong/build.ninja'' @ ''.globs'')
          = Inr \<lparr>data = ''G'', modTime = 50\<rparr>
        \<and> os_ReadFile exampleFS (''out/soong/build.ninja'' @ ''.globs_time'')
          = Inr (''100'' @ [CHR 0x0A])
        \<and> strconv_ParseInt exampleRuntime
            (strings_TrimSpace exampleRuntime (''100'' @ [CHR 0x0A])) = Inr 100
        \<and> json_Decode exampleRuntime (data \<lparr>data = ''G'', modTime = 50\<rparr>)
          = ([exampleGlob], None)
        \<and> (\<forall>g\<in>set [exampleGlob]. globReadable exampleRuntime exampleFS 100 g)
        \<and> fault exampleFS SysWrite (''out/soong/build.ninja'' @ ''.globs_time'') = None
        \<and> fault exampleFS SysWrite (''out/soong/build.ninja'' @ ''.glob_results'') = None"
    using example_open example_read example_parse example_decode example_readable
      example_no_write_fault
    by (intro conjI)
  have now: "time_Now exampleRuntime = 300"
    by (simp add: exampleRuntime_def)
  note t1 = checkGlobs_rewrites_iff_changed
    [of freshFS "''out/soong/build.ninja''" exampleRuntime, THEN conjunct1, rule_format, OF h1]
  note t2 = checkGlobs_rewrites_iff_changed
    [of exampleFS "''out/soong/build.ninja''" exampleRuntime, THEN conjunct2, rule_format, OF h2]
  from t1 have a: "fst (checkGlobs exampleRuntime freshFS ''out/soong/build.ninja'') = None"
    by (rule conjunct1)
  from t1 have b: "files (snd (checkGlobs exampleRuntime freshFS ''out/soong/build.ninja''))
        ''out/soong/build.ninja.glob_results'' = Some \<lparr>data = [], modTime = 300\<rparr>"
    by (simp add: now)
  from t2 have c: "fst (checkGlobs exampleRuntime exampleFS ''out/soong/build.ninja'') = None"
    by (rule conjunct1)
  from t2 [THEN conjunct2] example_changed
  have d: "files (snd (checkGlobs exampleRuntime exampleFS ''out/soong/build.ninja''))
        ''out/soong/build.ninja.glob_results''
        = Some \<lparr>data = ''300'' @ [CHR 0x0A], modTime = 300\<rparr>"
    by (simp add: now Itoa_300)
  from a b c d show ?thesis by (intro conjI)
qed

text \<open>
  Claim C1 as stated fails on two inputs. On a fresh tree whose output directory cannot
  be created the cache does not exist, yet \<open>checkGlobs\<close> returns the error of
  \<^verbatim>\<open>os.MkdirAll\<close> and creates no \<^verbatim>\<open>.glob_results\<close>. On the example tree with a
  write-protected \<^verbatim>\<open>.globs_time\<close> the cache exists, every read succeeds and the
  cached glob reruns to a different match list, yet \<open>checkGlobs\<close> returns the error of
  the write and leaves \<^verbatim>\<open>.glob_results\<close> as it was.
\<close>

theorem checkGlobs_claim_counterexample:
  "os_Open readOnlyFS ''out/soong/build.ninja.globs'' = Inl ErrNotExist
   \<and> fst (checkGlobs exampleRuntime readOnlyFS ''out/soong/build.ninja'')
       = Some (Err ''read-only file system'')
   \<and> files (snd (checkGlobs exampleRuntime readOnlyFS ''out/soong/build.ninja''))
       ''out/soong/build.ninja.glob_results'' = None
   \<and> globChanged exampleRuntime writeProtectedFS 100 exampleGlob
   \<and> globReadable exampleRuntime writeProtectedFS 100 exampleGlob
   \<and> fst (checkGlobs exampleRuntime writeProtectedFS ''out/soong/build.ninja'')
       = Some (Err ''permission denied'')
   \<and> files (snd (checkGlobs exampleRuntime writeProtectedFS ''out/soong/build.ninja''))
       ''out/soong/build.ninja.glob_results''
       = files writeProtectedFS ''out/soong/build.ninja.glob_results''"
proof -
  have o: "os_Open readOnlyFS ''out/soong/build.ninja.globs'' = Inl ErrNotExist"
    by (simp add: os_Open_def readOnlyFS_def)
  have r: "checkGlobs exampleRuntime readOnlyFS ''out/soong/build.ninja''
      = (Some (Err ''read-only file system''), readOnlyFS)"
    using o by (simp add: checkGlobs_def os_MkdirAll_def) (simp add: readOnlyFS_def)
  have nd: "hasNewDep writeProtectedFS 100 (Deps exampleGlob) = (True, [])"
    by (simp add: exampleGlob_def os_Stat_def writeProtectedFS_def exampleFS_def)
  have ch: "globChanged exampleRuntime writeProtectedFS 100 exampleGlob"
    by (simp add: globChanged_def nd) (simp add: exampleRuntime_def exampleGlob_def)
  have rd: "globReadable exampleRuntime writeProtectedFS 100 exampleGlob"
    by (simp add: globReadable_def nd exampleRuntime_def)
  have e: "errorsChan (runWorkers (checkCachedGlob exampleRuntime writeProtectedFS 100)
       (goSchedule exampleRuntime ''out/soong/build.ninja'') [exampleGlob]
       \<lparr>hasChangedGlobs = False, changedGlobName = [], errorsChan = []\<rparr>) = []"
    using runWorkers_errors [of "[exampleGlob]" exampleRuntime writeProtectedFS 100] rd
    by simp
  have op: "os_Open writeProtectedFS (''out/soong/build.ninja'' @ ''.globs'')
      = Inr \<lparr>data = ''G'', modTime = 50\<rparr>"
    by (simp add: os_Open_def writeProtectedFS_def exampleFS_def)
  have rdf: "os_ReadFile writeProtectedFS (''out/soong/build.ninja'' @ ''.globs_time'')
      = Inr (''100'' @ [CHR 0x0A])"
    by (simp add: os_ReadFile_def writeProtectedFS_def exampleFS_def)
  have wf: "os_WriteFile exampleRuntime writeProtectedFS
        (''out/soong/build.ninja'' @ ''.globs_time'') d = Inl (Err ''permission denied'')" for d
    by (simp add: os_WriteFile_def writeProtectedFS_def)
  have w: "checkGlobs exampleRuntime writeProtectedFS ''out/soong/build.ninja''
      = (Some (Err ''permission denied''), writeProtectedFS)"
    using op rdf example_parse example_decode e wf
    by (simp add: checkGlobs_def Let_def)
  have n: "files readOnlyFS ''out/soong/build.ninja.glob_results'' = None"
    by (simp add: readOnlyFS_def)
  from o r ch rd w n show ?thesis by simp
qed

text \<open>
  Claim C2, as amended. Expanding a glob is the work of Blueprint's \<open>pathtools.Glob\<close>,
  which this repository calls; whether the glob results have changed since the last
  build is decided in this repository, by \<open>checkGlobs\<close>: under every schedule of its
  workers the flag \<open>hasChangedGlobs\<close> ends up set exactly when some cached glob with a
  dependency that is missing or newer than the recorded time reruns to a match list
  different from the cached one.
\<close>

theorem hasChangedGlobs_decided_by_checkGlobs:
  "hasChangedGlobs
     (runWorkers (checkCachedGlob rt fs globsTimeMicros) sched cached noGlobState)
   = (\<exists>g\<in>set cached. globChanged rt fs globsTimeMicros g)"
  by (simp add: runWorkers_flag noGlobState_def)

theorem hasChangedGlobs_decided_by_checkGlobs_witness:
  "hasChangedGlobs
     (runWorkers (checkCachedGlob exampleRuntime exampleFS 100) [(0, True)] [exampleGlob]
        noGlobState)
   \<and> \<not> hasChangedGlobs
     (runWorkers (checkCachedGlob unchangedRuntime exampleFS 100) [(0, True)] [exampleGlob]
        noGlobState)"
  using hasChangedGlobs_decided_by_checkGlobs
      [of exampleRuntime exampleFS 100 "[(0, True)]" "[exampleGlob]"]
    hasChangedGlobs_decided_by_checkGlobs
      [of unchangedRuntime exampleFS 100 "[(0, True)]" "[exampleGlob]"]
    example_changed unchanged_not_changed
  by simp

text \<open>
  Claim C2 as stated fails: on the same tree and the same cache, \<open>checkGlobs\<close>
  rewrites \<^verbatim>\<open>build.ninja.glob_results\<close> when the glob reruns to a new match list and
  leaves the file alone when the glob reruns to the cached list. The comparison that
  tells the two apart is made by \<open>checkGlobs\<close> itself.
\<close>

theorem glob_change_detection_counterexample:
  "files (snd (checkGlobs exampleRuntime exampleFS ''out/soong/build.ninja''))
     ''out/soong/build.ninja.glob_results''
     \<noteq> files exampleFS ''out/soong/build.ninja.glob_results''
   \<and> files (snd (checkGlobs unchangedRuntime exampleFS ''out/soong/build.ninja''))
     ''out/soong/build.ninja.glob_results''
     = files exampleFS ''out/soong/build.ninja.glob_results''"
proof -
  have a: "files exampleFS ''out/soong/build.ninja.glob_results''
      = Some \<lparr>data = [], modTime = 50\<rparr>"
    by (simp add: exampleFS_def)
  have b: "files (snd (checkGlobs exampleRuntime exampleFS ''out/soong/build.ninja''))
     ''out/soong/build.ninja.glob_results''
     = Some \<lparr>data = Itoa (time_Now exampleRuntime) @ [CHR 0x0A],
              modTime = time_Now exampleRuntime\<rparr>"
    by (simp add: example_checkGlobs putFile_def)
  have c: "files (snd (checkGlobs unchangedRuntime exampleFS ''out/soong/build.ninja''))
     ''out/soong/build.ninja.glob_results''
     = files exampleFS ''out/soong/build.ninja.glob_results''"
    by (simp add: unchanged_checkGlobs putFile_def)
  have "time_Now exampleRuntime \<noteq> 50"
    by (simp add: exampleRuntime_def)
  with a b c show ?thesis by simp
qed
end
